theory Spec2Isabelle
  imports Complex_Main
begin

section \<open>Conventions of the embedding\<close>

text \<open>
  The engine is Python over numpy arrays of IEEE doubles. Here a Python \<open>float\<close> is a
  \<^typ>\<open>real\<close> and a Python \<open>int\<close> is an \<^typ>\<open>int\<close> (loop indices are \<^typ>\<open>nat\<close>):
  the theory describes the arithmetic the code writes down, not its rounding, overflow,
  infinities or NaN propagation. The two places where the code produces no number at all
  are values of \<open>py_error\<close>: an exception raised by Python or numpy, and the NaN that
  \<open>numpy.mean\<close> returns for an empty array.

  Every per-path numpy array of \<open>simulate_once\<close> has length \<open>n_sims\<close> and every
  array statement acts on index \<open>i\<close> of all arrays alike, so the arrays are kept as one list
  of \<open>lane\<close> records (one record per path) and an array statement is a field update
  mapped over the list. A masked update guarded by \<open>if np.any(mask)\<close> changes nothing
  when the mask is empty, so the guard is dropped; the one guard whose body is not masked
  (\<open>if np.any(surplus > 0)\<close>) is kept as a flag computed across all lanes.
\<close>

datatype py_error = IndexError | ValueError | ZeroDivisionError | NanResult

section \<open>loan.py\<close>

text \<open>\<open>x ** k\<close> for a float \<open>x\<close> and an int \<open>k\<close>: Python raises for \<open>0.0 ** negative\<close>.\<close>

definition py_pow :: "real \<Rightarrow> int \<Rightarrow> py_error + real" where
  "py_pow x k = (if x = 0 \<and> k < 0 then Inl ZeroDivisionError else Inr (x powi k))"

text \<open>Division of Python floats raises on a zero divisor.\<close>

definition py_div :: "real \<Rightarrow> real \<Rightarrow> py_error + real" where
  "py_div x y = (if y = 0 then Inl ZeroDivisionError else Inr (x / y))"

definition amort_payment :: "real \<Rightarrow> real \<Rightarrow> int \<Rightarrow> py_error + real" where
  "amort_payment principal_amt rate_real term_years =
     (if principal_amt \<le> 0 then Inr 0
      else case py_pow (1 + rate_real) (- term_years) of
             Inl e \<Rightarrow> Inl e
           | Inr q \<Rightarrow> py_div (rate_real * principal_amt) (1 - q))"

definition loan_balance_after_k :: "real \<Rightarrow> real \<Rightarrow> real \<Rightarrow> int \<Rightarrow> py_error + real" where
  "loan_balance_after_k principal_amt rate_real payment k =
     (if principal_amt \<le> 0 then Inr 0
      else case py_pow (1 + rate_real) k of
             Inl e \<Rightarrow> Inl e
           | Inr g \<Rightarrow>
               (case py_div (g - 1) rate_real of
                  Inl e \<Rightarrow> Inl e
                | Inr f \<Rightarrow> Inr (principal_amt * g - payment * f)))"

section \<open>accounts.py\<close>

text \<open>
  \<open>take_from\<close> on one lane: the new balance and the remaining amount. The balance is
  not clipped at 0.
\<close>

definition take_from :: "real \<Rightarrow> real \<Rightarrow> real \<times> real" where
  "take_from arr amount =
     (let take = min amount (max arr 0) in (arr - take, amount - take))"

text \<open>\<open>w[min(t + 1, len(w) - 1)]\<close>: on an empty schedule the index is \<open>-1\<close> and numpy raises.\<close>

definition safe_targets :: "real list \<Rightarrow> nat \<Rightarrow> real \<Rightarrow> real \<Rightarrow> py_error + (real \<times> real)" where
  "safe_targets w t reserve_years reserve_cash_fraction =
     (if w = [] then Inl IndexError
      else let nxt = w ! (min (t + 1) (length w - 1));
               tgt_total = reserve_years * nxt;
               tgt_cash = reserve_cash_fraction * tgt_total;
               tgt_base = tgt_total - tgt_cash
           in Inr (tgt_cash, tgt_base))"

section \<open>guardrails.py\<close>

text \<open>One lane of \<open>compute_cuts\<close>: the second \<open>np.where\<close> overrides the first.\<close>

definition compute_cuts :: "real \<Rightarrow> real \<Rightarrow> real \<Rightarrow> real \<Rightarrow> real \<Rightarrow> real" where
  "compute_cuts drawdown d1 d2 c1 c2 =
     (let cut = 0;
          cut = (if drawdown \<ge> d2 then c2 else cut);
          cut = (if drawdown \<ge> d1 \<and> drawdown < d2 then c1 else cut)
      in cut)"

section \<open>mortality.py\<close>

definition SSA_ROWS :: "(int \<times> real \<times> real) list" where
  "SSA_ROWS =
    [(53, 7073 / 1000000, 88825), (54, 7675 / 1000000, 88196), (55, 8348 / 1000000, 87520),
     (56, 9051 / 1000000, 86789), (57, 9822 / 1000000, 86003), (58, 10669 / 1000000, 85159),
     (59, 11548 / 1000000, 84250), (60, 12458 / 1000000, 83277), (61, 13403 / 1000000, 82240),
     (62, 14450 / 1000000, 81138), (63, 15571 / 1000000, 79965), (64, 16737 / 1000000, 78720),
     (65, 17897 / 1000000, 77402), (66, 19017 / 1000000, 76017), (67, 20213 / 1000000, 74572),
     (68, 21569 / 1000000, 73064), (69, 23088 / 1000000, 71488), (70, 24828 / 1000000, 69838),
     (71, 26705 / 1000000, 68104), (72, 28761 / 1000000, 66285), (73, 31116 / 1000000, 64379),
     (74, 33861 / 1000000, 62376), (75, 37088 / 1000000, 60263), (76, 41126 / 1000000, 58028),
     (77, 45241 / 1000000, 55642), (78, 49793 / 1000000, 53125), (79, 54768 / 1000000, 50479),
     (80, 60660 / 1000000, 47715), (81, 67027 / 1000000, 44820), (82, 73999 / 1000000, 41816),
     (83, 81737 / 1000000, 38722), (84, 90458 / 1000000, 35557), (85, 100525 / 1000000, 32340),
     (86, 111793 / 1000000, 29089), (87, 124494 / 1000000, 25837), (88, 138398 / 1000000, 22621),
     (89, 153207 / 1000000, 19490), (90, 169704 / 1000000, 16504), (91, 187963 / 1000000, 13703),
     (92, 208395 / 1000000, 11128), (93, 230808 / 1000000, 8809), (94, 253914 / 1000000, 6776),
     (95, 277402 / 1000000, 5055), (96, 300882 / 1000000, 3653), (97, 324326 / 1000000, 2554),
     (98, 347332 / 1000000, 1726), (99, 369430 / 1000000, 1126)]"

text \<open>
  \<open>mortality_weights\<close>: \<open>l0 = lx[0]\<close>, \<open>dx = lx * qx\<close>, \<open>p = dx / l0\<close>, then
  \<open>p = p / p.sum()\<close>. The table is a non-empty constant, so \<open>lx[0]\<close> is \<open>hd\<close>.
\<close>

definition mortality_weights :: "int list \<times> real list" where
  "mortality_weights =
     (let ages = map (\<lambda>r. fst r) SSA_ROWS;
          qx = map (\<lambda>r. fst (snd r)) SSA_ROWS;
          lx = map (\<lambda>r. snd (snd r)) SSA_ROWS;
          l0 = hd lx;
          dx = map2 (\<lambda>l q. l * q) lx qx;
          p = map (\<lambda>d. d / l0) dx;
          p = map (\<lambda>x. x / sum_list p) p
      in (ages, p))"

text \<open>
  \<open>arr.mean()\<close> of a boolean array, for a non-empty array; every caller below handles
  the empty array (whose mean is NaN) before it comes here.
\<close>

definition mean_bool :: "bool list \<Rightarrow> real" where
  "mean_bool bs = real (length (filter (\<lambda>b. b) bs)) / real (length bs)"

text \<open>
  \<open>age_to_t = {int(ages_model[t]): t for t in range(n_years)}\<close>: a later year overrides
  an earlier one with the same age.
\<close>

definition age_to_t :: "int list \<Rightarrow> (int \<rightharpoonup> nat)" where
  "age_to_t ages_model =
     fold (\<lambda>t m. m(ages_model ! t \<mapsto> t)) [0..<length ages_model] Map.empty"

text \<open>
  \<open>death_weighted_success\<close>. With \<open>n_years = 0\<close> the default index \<open>n_years - 1\<close> is
  \<open>-1\<close> into the empty \<open>ruin_by_t\<close>: IndexError. With \<open>n_years > 0\<close> every index used is in
  range. With an empty \<open>fail_idx\<close> every mean is NaN and so are both results.
\<close>

definition ruin_by_t :: "int list \<Rightarrow> nat \<Rightarrow> real list" where
  "ruin_by_t fail_idx n_years =
     map (\<lambda>t. mean_bool (map (\<lambda>f. f \<le> int t) fail_idx)) [0..<n_years]"

definition ruin_by_age :: "int list \<Rightarrow> int list \<Rightarrow> real list" where
  "ruin_by_age fail_idx ages_model =
     (let n_years = length ages_model in
      map (\<lambda>a. ruin_by_t fail_idx n_years !
                 (case age_to_t ages_model a of None \<Rightarrow> n_years - 1 | Some t \<Rightarrow> t))
        (fst mortality_weights))"

definition death_weighted_success :: "int list \<Rightarrow> int list \<Rightarrow> py_error + (real \<times> real)" where
  "death_weighted_success fail_idx ages_model =
     (let p_death = snd mortality_weights;
          n_years = length ages_model
      in if n_years = 0 then Inl IndexError
         else if fail_idx = [] then Inl NanResult
         else
           let p_dw = sum_list (map2 (\<lambda>p r. p * (1 - r)) p_death (ruin_by_age fail_idx ages_model));
               p99 = mean_bool (map (\<lambda>f. f \<ge> int n_years) fail_idx)
           in Inr (p_dw, p99))"

section \<open>engine.py: the withdrawal schedule\<close>

text \<open>
  \<open>build_withdrawals\<close>. Both modes write \<open>w[0]\<close>, which raises on an empty schedule; the
  legacy mode reads \<open>ages[0]\<close> and then \<open>ages[t]\<close> for every later year.
\<close>

definition build_withdrawals ::
  "real \<Rightarrow> nat \<Rightarrow> int list \<Rightarrow> real \<Rightarrow> bool \<Rightarrow> real \<Rightarrow> int \<Rightarrow> real \<Rightarrow> int \<Rightarrow> int \<Rightarrow> py_error + real list" where
  "build_withdrawals E n_years ages pyf income_applies ss_annual ss_start ei_annual ei_start ei_end =
     (if income_applies then
        (if n_years = 0 then Inl IndexError
         else Inr (max 0 (E * pyf) # map (\<lambda>t. max 0 E) [1..<n_years]))
      else
        (if n_years = 0 \<or> length ages < n_years then Inl IndexError
         else
           let earned_income = (\<lambda>age. if ei_annual \<le> 0 then 0
                                        else if age < ei_start \<or> age > ei_end then 0
                                        else ei_annual);
               age0 = ages ! 0;
               ei0 = earned_income age0 * pyf;
               ss0 = (if age0 \<ge> ss_start then ss_annual * pyf else 0);
               w0 = max 0 (E * pyf - ss0 - ei0)
           in Inr (w0 # map (\<lambda>t. let age = ages ! t;
                                     ei = earned_income age;
                                     ss = (if age \<ge> ss_start then ss_annual else 0)
                                 in max 0 (E - ss - ei)) [1..<n_years])))"

section \<open>engine.py: arguments, per-path state and result of the kernel\<close>

text \<open>The keyword arguments of \<open>simulate_once\<close> other than \<open>returns\<close> and \<open>E\<close>.\<close>

record sim_kwargs =
  n_sims :: int
  start_portfolio :: real
  start_age :: int
  partial_year_fraction :: real
  seed :: int
  reserve_years :: real
  reserve_cash_fraction :: real
  safe_real_return :: real
  floor_annual_real :: real
  income_applies_to_actual_spend :: bool
  ss_annual_real :: real
  ss_start_age :: int
  earned_income_annual_real :: real
  earned_income_start_age :: int
  earned_income_end_age :: int
  allow_surplus_savings :: bool
  surplus_allocation :: string
  dd1 :: real
  dd2 :: real
  cut1 :: real
  cut2 :: real
  baseline_e_for_flex :: real
  baseline_flex_pre :: real
  baseline_net_post_ss :: real
  baseline_flex_post :: real
  rm_open_age :: int
  home_value_real :: real
  rm_plf_at_open :: real
  rm_limit_real_growth :: real
  rm_bal_real_rate :: real
  rm_partial_cover :: real
  rm_repay_rate :: real
  payoff_dd_threshold :: real
  loan_amount :: int
  loan_real_rate :: real
  loan_term_years :: int
  loan_bucket_real_return :: real
  loan_bucket_use_dd :: real
  loan_bucket_partial_cover :: real

text \<open>
  The \<open>returns\<close> argument: a two-dimensional array, given by its shape and its entries.
\<close>

record matrix =
  shape0 :: nat
  shape1 :: nat
  entry :: "nat \<Rightarrow> nat \<Rightarrow> real"

text \<open>Index \<open>i\<close> of every per-path array of the kernel.\<close>

record lane =
  cash :: real
  base_treas :: real
  risky :: real
  loan_bucket :: real
  loan_bal :: real
  hwm :: real
  max_dd_risky :: real
  hwm_total :: real
  max_dd_total :: real
  rm_limit :: real
  rm_bal :: real
  rm_ever_used :: bool
  failed :: bool
  fail_idx :: int

text \<open>The dictionary returned by \<open>simulate_once\<close>.\<close>

record metrics =
  p_success_death_weighted :: real
  p_success_to_age_99 :: real
  median_max_dd_risky :: real
  median_max_dd_total :: real
  home_equity_remaining_median :: real
  p_any_rm_draw :: real
  rm_balance_end_median :: real
  risky_end_median :: real
  total_net_end_median :: real
  net_worth_end_median :: real

section \<open>engine.py: values fixed before the year loop\<close>

definition ages_of :: "sim_kwargs \<Rightarrow> nat \<Rightarrow> int list" where
  "ages_of kw n_years = map (\<lambda>t. start_age kw + int t) [0..<n_years]"

text \<open>\<open>floor_assets[t]\<close>, for a year of the loop (the array has \<open>n_years\<close> entries).\<close>

definition floor_assets :: "sim_kwargs \<Rightarrow> nat \<Rightarrow> real" where
  "floor_assets kw t =
     (if t = 0 then floor_annual_real kw * partial_year_fraction kw else floor_annual_real kw)"

definition pre_flex_pct :: "sim_kwargs \<Rightarrow> real" where
  "pre_flex_pct kw =
     (if baseline_e_for_flex kw > 0 then baseline_flex_pre kw / baseline_e_for_flex kw else 0)"

definition post_flex_pct :: "sim_kwargs \<Rightarrow> real" where
  "post_flex_pct kw =
     (if baseline_net_post_ss kw > 0 then baseline_flex_post kw / baseline_net_post_ss kw else 0)"

definition rm_open_t :: "sim_kwargs \<Rightarrow> int" where
  "rm_open_t kw = rm_open_age kw - start_age kw"

definition rm_limit_open :: "sim_kwargs \<Rightarrow> real" where
  "rm_limit_open kw = home_value_real kw * rm_plf_at_open kw"

definition has_loan :: "sim_kwargs \<Rightarrow> bool" where
  "has_loan kw = (loan_amount kw > 0)"

text \<open>The tolerance \<open>1e-9\<close> of the remainder and feasibility tests.\<close>

definition eps :: real where
  "eps = 1 / 1000000000"

text \<open>
  The state of one path before year 0. \<open>base_treas\<close> is seeded from \<open>cash[0]\<close>, which is
  the scalar every lane of \<open>cash\<close> was filled with.
\<close>

definition init_lane :: "sim_kwargs \<Rightarrow> nat \<Rightarrow> real \<Rightarrow> real \<Rightarrow> lane" where
  "init_lane kw n_years tgt_cash0 tgt_base0 =
     (let init_safe = min (tgt_cash0 + tgt_base0) (start_portfolio kw);
          cash0 = min tgt_cash0 init_safe;
          base0 = max 0 (init_safe - cash0);
          risky0 = start_portfolio kw - init_safe;
          bucket0 = (if has_loan kw then real_of_int (loan_amount kw) else 0);
          bal0 = (if has_loan kw then real_of_int (loan_amount kw) else 0);
          total_net = cash0 + base0 + risky0 + bucket0 - bal0
      in \<lparr> cash = cash0, base_treas = base0, risky = risky0,
           loan_bucket = bucket0, loan_bal = bal0,
           hwm = risky0, max_dd_risky = 0,
           hwm_total = total_net, max_dd_total = 0,
           rm_limit = 0, rm_bal = 0, rm_ever_used = False,
           failed = False, fail_idx = int n_years \<rparr>)"

section \<open>engine.py: one year of one path, up to the reverse-mortgage accrual\<close>

definition grow :: "sim_kwargs \<Rightarrow> real \<Rightarrow> lane \<Rightarrow> lane" where
  "grow kw ret s =
     s\<lparr> risky := risky s * (1 + ret),
        cash := cash s * (1 + safe_real_return kw),
        base_treas := base_treas s * (1 + safe_real_return kw),
        loan_bucket := (if has_loan kw then loan_bucket s * (1 + loan_bucket_real_return kw)
                        else loan_bucket s) \<rparr>"

text \<open>The drawdown of the risky asset is a local array of the year: it is returned.\<close>

definition update_drawdown :: "lane \<Rightarrow> lane \<times> real" where
  "update_drawdown s =
     (let hwm1 = max (hwm s) (risky s);
          drawdown = (if hwm1 > 0 then 1 - risky s / hwm1 else 0);
          total_net = cash s + base_treas s + risky s + loan_bucket s - loan_bal s;
          hwm_total1 = max (hwm_total s) total_net;
          dd_total = 1 - (if hwm_total1 > 0 then total_net / hwm_total1 else 0)
      in (s\<lparr> hwm := hwm1, max_dd_risky := max (max_dd_risky s) drawdown,
              hwm_total := hwm_total1, max_dd_total := max (max_dd_total s) dd_total \<rparr>,
          drawdown))"

text \<open>
  A draw in progress is a lane together with the amount still to be drawn. The first four
  functions are \<open>rem = take_from(arr, rem)\<close> for the array named, on one lane.
\<close>

definition draw_cash :: "lane \<Rightarrow> real \<Rightarrow> lane \<times> real" where
  "draw_cash s rem = (let (bal, rem1) = take_from (cash s) rem in (s\<lparr> cash := bal \<rparr>, rem1))"

definition draw_base :: "lane \<Rightarrow> real \<Rightarrow> lane \<times> real" where
  "draw_base s rem =
     (let (bal, rem1) = take_from (base_treas s) rem in (s\<lparr> base_treas := bal \<rparr>, rem1))"

definition draw_risky :: "lane \<Rightarrow> real \<Rightarrow> lane \<times> real" where
  "draw_risky s rem = (let (bal, rem1) = take_from (risky s) rem in (s\<lparr> risky := bal \<rparr>, rem1))"

definition draw_bucket :: "lane \<Rightarrow> real \<Rightarrow> lane \<times> real" where
  "draw_bucket s rem =
     (let (bal, rem1) = take_from (loan_bucket s) rem in (s\<lparr> loan_bucket := bal \<rparr>, rem1))"

text \<open>
  \<open>take_from(risky[mask], payoff[mask])\<close>: \<open>risky[mask]\<close> is an array numpy builds for the
  call, so the in-place subtraction inside \<open>take_from\<close> changes that temporary and
  \<open>risky\<close> itself keeps its value; only the returned remainder is used.
\<close>

definition peek_risky :: "lane \<Rightarrow> real \<Rightarrow> real" where
  "peek_risky s rem = snd (take_from (risky s) rem)"

text \<open>
  \<open>avail_rm = max(0, rm_limit - rm_bal); take = min(rem, avail_rm); rm_bal += take;
  rem -= take\<close>.
\<close>

definition draw_rm :: "lane \<Rightarrow> real \<Rightarrow> lane \<times> real" where
  "draw_rm s rem =
     (let avail_rm = max 0 (rm_limit s - rm_bal s);
          take = min rem avail_rm
      in (s\<lparr> rm_bal := rm_bal s + take \<rparr>, rem - take))"

text \<open>
  \<open>allow = (drawdown >= loan_bucket_use_dd) & (~failed) & (rem > 1e-9)\<close>, then on the
  allowed lanes \<open>take = min(rem, loan_bucket); loan_bucket -= take; rem -= take\<close>.
\<close>

definition draw_bucket_gated :: "sim_kwargs \<Rightarrow> real \<Rightarrow> lane \<Rightarrow> real \<Rightarrow> lane \<times> real" where
  "draw_bucket_gated kw drawdown s rem =
     (let allow = (drawdown \<ge> loan_bucket_use_dd kw \<and> \<not> failed s \<and> rem > eps);
          take = min rem (loan_bucket s)
      in if allow then (s\<lparr> loan_bucket := loan_bucket s - take \<rparr>, rem - take) else (s, rem))"

text \<open>
  \<open>newly_failed = (~failed) & cond; failed[newly_failed] = True; fail_idx[newly_failed] = t\<close>.
\<close>

definition mark_failed :: "nat \<Rightarrow> bool \<Rightarrow> lane \<Rightarrow> lane" where
  "mark_failed t cond s =
     (let newly_failed = (\<not> failed s \<and> cond)
      in s\<lparr> failed := (failed s \<or> newly_failed),
            fail_idx := (if newly_failed then int t else fail_idx s) \<rparr>)"

text \<open>
  The loan payment before the reverse mortgage opens. The three \<open>take_from\<close> calls act on
  every lane, failed or not; only the draw on the loan bucket is masked by \<open>~failed\<close>.
  \<open>new_bal\<close> is the scalar written to \<open>loan_bal[:]\<close>.
\<close>

definition pay_loan :: "sim_kwargs \<Rightarrow> real \<Rightarrow> real \<Rightarrow> nat \<Rightarrow> real \<Rightarrow> lane \<Rightarrow> lane" where
  "pay_loan kw pay new_bal t drawdown s =
     (let (s1, rem1) = draw_cash s pay;
          (s2, rem2) = draw_base s1 rem1;
          (s3, rem3) = draw_risky s2 rem2;
          (s4, rem4) = draw_bucket_gated kw drawdown s3 rem3
      in (mark_failed t (rem4 > eps) s4)\<lparr> loan_bal := new_bal \<rparr>)"

text \<open>
  The year the reverse mortgage opens. A lane with \<open>risky_first\<close> meets the statements
  risky, reverse mortgage; any other lane meets reverse mortgage, risky; the statements on
  \<open>base_treas\<close>, \<open>cash\<close> and \<open>loan_bucket\<close> pass the arrays themselves to \<open>take_from\<close>
  and do change them.
\<close>

definition rm_open :: "sim_kwargs \<Rightarrow> nat \<Rightarrow> real \<Rightarrow> lane \<Rightarrow> lane" where
  "rm_open kw t drawdown s0 =
     (let s = s0\<lparr> rm_limit := rm_limit_open kw * (1 + rm_limit_real_growth kw) \<rparr> in
      if has_loan kw then
        let payoff0 = loan_bal s;
            risky_first = (drawdown \<le> payoff_dd_threshold kw);
            payoff1 = (if risky_first then peek_risky s payoff0 else payoff0);
            (s1, payoff2) = (if \<not> risky_first then draw_rm s payoff1 else (s, payoff1));
            (s2, payoff3) = (if risky_first then draw_rm s1 payoff2 else (s1, payoff2));
            payoff4 = (if \<not> risky_first then peek_risky s2 payoff3 else payoff3);
            (s3, payoff5) = draw_base s2 payoff4;
            (s4, payoff6) = draw_cash s3 payoff5;
            (s5, payoff7) = draw_bucket s4 payoff6
        in (mark_failed t (payoff7 > eps) s5)\<lparr> loan_bal := 0 \<rparr>
      else s)"

definition rm_growth :: "sim_kwargs \<Rightarrow> lane \<Rightarrow> lane" where
  "rm_growth kw s =
     s\<lparr> rm_limit := rm_limit s * (1 + rm_limit_real_growth kw),
        rm_bal := rm_bal s * (1 + rm_bal_real_rate kw) \<rparr>"

text \<open>
  The first half of year \<open>t\<close> on one path with return \<open>ret\<close>: growth, drawdowns, loan
  payment, opening of the reverse mortgage and its accrual.
\<close>

definition lane_pre :: "sim_kwargs \<Rightarrow> real \<Rightarrow> real \<Rightarrow> nat \<Rightarrow> real \<Rightarrow> lane \<Rightarrow> lane \<times> real" where
  "lane_pre kw pay new_bal t ret s =
     (let (s1, drawdown) = update_drawdown (grow kw ret s);
          s2 = (if has_loan kw \<and> int t < rm_open_t kw
                then pay_loan kw pay new_bal t drawdown s1 else s1);
          s3 = (if int t = rm_open_t kw then rm_open kw t drawdown s2 else s2);
          s4 = (if int t \<ge> rm_open_t kw then rm_growth kw s3 else s3)
      in (s4, drawdown))"

section \<open>engine.py: one year of one path, spending and after\<close>

definition age_at :: "sim_kwargs \<Rightarrow> nat \<Rightarrow> int" where
  "age_at kw t = start_age kw + int t"

definition desired_spend :: "sim_kwargs \<Rightarrow> real list \<Rightarrow> nat \<Rightarrow> real \<Rightarrow> real" where
  "desired_spend kw w t drawdown =
     (let flex_pct = (if age_at kw t < ss_start_age kw then pre_flex_pct kw else post_flex_pct kw);
          flex_amt = min (flex_pct * w ! t) (w ! t);
          floor_amt = w ! t - flex_amt;
          cut = compute_cuts drawdown (dd1 kw) (dd2 kw) (cut1 kw) (cut2 kw)
      in floor_amt + flex_amt * (1 - cut))"

definition max_feasible :: "sim_kwargs \<Rightarrow> real \<Rightarrow> lane \<Rightarrow> real" where
  "max_feasible kw drawdown s =
     (let avail_rm = max 0 (rm_limit s - rm_bal s);
          accessible_loan = (if drawdown \<ge> loan_bucket_use_dd kw then loan_bucket s else 0)
      in cash s + base_treas s + max (risky s) 0 + avail_rm + accessible_loan)"

definition income_scalar :: "sim_kwargs \<Rightarrow> nat \<Rightarrow> real" where
  "income_scalar kw t =
     (if income_applies_to_actual_spend kw then
        let age = age_at kw t;
            ei = (if earned_income_annual_real kw > 0
                     \<and> earned_income_start_age kw \<le> age \<and> age \<le> earned_income_end_age kw
                  then earned_income_annual_real kw else 0);
            ss = (if age \<ge> ss_start_age kw then ss_annual_real kw else 0);
            ei1 = (if t = 0 then ei * partial_year_fraction kw else ei);
            ss1 = (if t = 0 then ss * partial_year_fraction kw else ss)
        in ss1 + ei1
      else 0)"

definition asset_desired :: "sim_kwargs \<Rightarrow> real list \<Rightarrow> nat \<Rightarrow> real \<Rightarrow> real" where
  "asset_desired kw w t drawdown =
     (if income_scalar kw t > 0 then max 0 (desired_spend kw w t drawdown - income_scalar kw t)
      else desired_spend kw w t drawdown)"

definition floor_need_assets :: "sim_kwargs \<Rightarrow> nat \<Rightarrow> real" where
  "floor_need_assets kw t =
     (if income_scalar kw t > 0 then max 0 (floor_assets kw t - income_scalar kw t)
      else floor_assets kw t)"

text \<open>\<open>surplus\<close>, defined in the branch \<open>income_scalar > 0\<close> only.\<close>

definition surplus_of :: "sim_kwargs \<Rightarrow> real list \<Rightarrow> nat \<Rightarrow> real \<Rightarrow> real" where
  "surplus_of kw w t drawdown = max 0 (income_scalar kw t - desired_spend kw w t drawdown)"

text \<open>The body of \<open>if np.any(surplus > 0)\<close> on one lane.\<close>

definition add_surplus :: "sim_kwargs \<Rightarrow> real \<times> real \<Rightarrow> real \<Rightarrow> lane \<Rightarrow> lane" where
  "add_surplus kw tgts surplus s =
     (if surplus_allocation kw = ''risky_first'' then s\<lparr> risky := risky s + surplus \<rparr>
      else
        let (tgt_cash, tgt_base) = tgts;
            add_cash = min (max 0 (tgt_cash - cash s)) surplus;
            surplus1 = surplus - add_cash;
            add_base = min (max 0 (tgt_base - base_treas s)) surplus1;
            surplus2 = surplus1 - add_base
        in s\<lparr> cash := cash s + add_cash, base_treas := base_treas s + add_base,
              risky := risky s + surplus2 \<rparr>)"

text \<open>The feasibility test; \<open>mf\<close> is \<open>max_feasible\<close>, computed before the surplus was added.\<close>

definition mark_infeasible :: "sim_kwargs \<Rightarrow> nat \<Rightarrow> real \<Rightarrow> lane \<Rightarrow> lane" where
  "mark_infeasible kw t mf s = mark_failed t (mf < floor_need_assets kw t - eps) s"

definition spend_assets :: "sim_kwargs \<Rightarrow> real list \<Rightarrow> nat \<Rightarrow> real \<Rightarrow> real \<Rightarrow> lane \<Rightarrow> real" where
  "spend_assets kw w t drawdown mf s =
     (if \<not> failed s then max (min (asset_desired kw w t drawdown) mf) (floor_need_assets kw t)
      else 0)"

text \<open>
  The two partial-cover draws of the funding order: on the loan bucket where the drawdown
  allows it and the bucket is not empty, on the reverse mortgage where the drawdown has
  reached \<open>dd2\<close>; both leave failed lanes alone.
\<close>

definition draw_bucket_partial :: "sim_kwargs \<Rightarrow> real \<Rightarrow> lane \<Rightarrow> real \<Rightarrow> lane \<times> real" where
  "draw_bucket_partial kw drawdown s rem =
     (let allow = (drawdown \<ge> loan_bucket_use_dd kw \<and> \<not> failed s \<and> loan_bucket s > 0);
          take_loan = (if allow then min (rem * loan_bucket_partial_cover kw) (loan_bucket s)
                       else 0)
      in (s\<lparr> loan_bucket := loan_bucket s - take_loan \<rparr>, rem - take_loan))"

definition draw_rm_partial :: "sim_kwargs \<Rightarrow> real \<Rightarrow> lane \<Rightarrow> real \<Rightarrow> lane \<times> real" where
  "draw_rm_partial kw drawdown s rem =
     (let avail_rm = max 0 (rm_limit s - rm_bal s);
          take_rm = (if drawdown \<ge> dd2 kw \<and> \<not> failed s
                     then min (rem * rm_partial_cover kw) avail_rm else 0)
      in (s\<lparr> rm_bal := rm_bal s + take_rm \<rparr>, rem - take_rm))"

text \<open>
  The funding order for the amount \<open>spend\<close>: cash, base treasuries, loan bucket (partial),
  reverse mortgage (partial), risky, reverse mortgage (in full), loan bucket (in full).
\<close>

definition fund_spending :: "sim_kwargs \<Rightarrow> real \<Rightarrow> real \<Rightarrow> lane \<Rightarrow> lane" where
  "fund_spending kw drawdown spend s =
     (let (s1, rem1) = draw_cash s spend;
          (s2, rem2) = draw_base s1 rem1;
          (s3, rem3) = draw_bucket_partial kw drawdown s2 rem2;
          (s4, rem4) = draw_rm_partial kw drawdown s3 rem3;
          (s5, rem5) = draw_risky s4 rem4;
          (s6, rem6) = draw_rm s5 rem5;
          (s7, rem7) = draw_bucket_gated kw drawdown s6 rem6
      in s7)"

definition refill_reserve :: "sim_kwargs \<Rightarrow> real \<times> real \<Rightarrow> real \<Rightarrow> lane \<Rightarrow> lane" where
  "refill_reserve kw tgts drawdown s =
     (let (tgt_cash_r, tgt_base_r) = tgts;
          good = (drawdown < dd1 kw \<and> \<not> failed s);
          need_cash = max 0 (tgt_cash_r - cash s);
          add_cash = (if good then min need_cash (max (risky s) 0) else 0);
          risky1 = risky s - add_cash;
          cash1 = cash s + add_cash;
          need_base = max 0 (tgt_base_r - base_treas s);
          add_base = (if good then min need_base (max risky1 0) else 0);
          risky2 = risky1 - add_base;
          base1 = base_treas s + add_base
      in s\<lparr> risky := risky2, cash := cash1, base_treas := base1 \<rparr>)"

definition repay_rm :: "sim_kwargs \<Rightarrow> real \<Rightarrow> lane \<Rightarrow> lane" where
  "repay_rm kw drawdown s =
     (let good = (drawdown < dd1 kw \<and> \<not> failed s);
          recovered = (drawdown < eps \<and> good \<and> rm_bal s > 0);
          repay_amt = (if recovered then rm_bal s * rm_repay_rate kw else 0);
          repay_take = min repay_amt (max (risky s) 0)
      in s\<lparr> risky := risky s - repay_take, rm_bal := rm_bal s - repay_take \<rparr>)"

definition latch_rm :: "lane \<Rightarrow> lane" where
  "latch_rm s = s\<lparr> rm_ever_used := (rm_ever_used s \<or> rm_bal s > 0) \<rparr>"

text \<open>
  The second half of year \<open>t\<close> on one path. \<open>any_surplus\<close> is \<open>np.any(surplus > 0)\<close>, taken
  over all paths; \<open>tgts\<close> is \<open>safe_targets(w, t, ...)\<close>.
\<close>

definition lane_post ::
  "sim_kwargs \<Rightarrow> real list \<Rightarrow> real \<times> real \<Rightarrow> bool \<Rightarrow> nat \<Rightarrow> real \<Rightarrow> lane \<Rightarrow> lane" where
  "lane_post kw w tgts any_surplus t drawdown s =
     (let mf = max_feasible kw drawdown s;
          s1 = (if income_scalar kw t > 0 \<and> any_surplus
                then add_surplus kw tgts (surplus_of kw w t drawdown) s else s);
          s2 = mark_infeasible kw t mf s1;
          s3 = fund_spending kw drawdown (spend_assets kw w t drawdown mf s2) s2;
          s4 = refill_reserve kw tgts drawdown s3;
          s5 = repay_rm kw drawdown s4
      in latch_rm s5)"

section \<open>engine.py: the year loop and the metrics\<close>

text \<open>
  \<open>returns[:, t]\<close> as it meets an array of \<open>n\<close> lanes: a matrix with one row is broadcast
  to every lane.
\<close>

definition returns_col :: "matrix \<Rightarrow> nat \<Rightarrow> nat \<Rightarrow> real list" where
  "returns_col returns n t =
     map (\<lambda>i. entry returns (if shape0 returns = 1 then 0 else i) t) [0..<n]"

text \<open>
  The scalar the loan payment of year \<open>t\<close> writes to \<open>loan_bal[:]\<close>; it is computed in
  the years with a loan payment only (no assignment happens in the other years).
\<close>

definition scheduled_loan_bal :: "sim_kwargs \<Rightarrow> real \<Rightarrow> nat \<Rightarrow> py_error + real" where
  "scheduled_loan_bal kw pay t =
     (if has_loan kw \<and> int t < rm_open_t kw then
        (let k = int t + 1 in
         if k \<le> loan_term_years kw
         then loan_balance_after_k (real_of_int (loan_amount kw)) (loan_real_rate kw) pay k
         else Inr 0)
      else Inr 0)"

definition year_step ::
  "sim_kwargs \<Rightarrow> real list \<Rightarrow> real \<Rightarrow> nat \<Rightarrow> real list \<Rightarrow> lane list \<Rightarrow> py_error + lane list" where
  "year_step kw w pay t col lanes =
     (case scheduled_loan_bal kw pay t of
        Inl e \<Rightarrow> Inl e
      | Inr new_bal \<Rightarrow>
          (case safe_targets w t (reserve_years kw) (reserve_cash_fraction kw) of
             Inl e \<Rightarrow> Inl e
           | Inr tgts \<Rightarrow>
               let pre = map2 (lane_pre kw pay new_bal t) col lanes;
                   any_surplus = list_ex (\<lambda>(s, drawdown). surplus_of kw w t drawdown > 0) pre
               in Inr (map (\<lambda>(s, drawdown). lane_post kw w tgts any_surplus t drawdown s) pre)))"

text \<open>\<open>years_loop kw w pay returns n lanes\<close>: the state after \<open>for t in range(n)\<close>.\<close>

fun years_loop ::
  "sim_kwargs \<Rightarrow> real list \<Rightarrow> real \<Rightarrow> matrix \<Rightarrow> nat \<Rightarrow> lane list \<Rightarrow> py_error + lane list" where
  "years_loop kw w pay returns 0 lanes = Inr lanes"
| "years_loop kw w pay returns (Suc t) lanes =
     (case years_loop kw w pay returns t lanes of
        Inl e \<Rightarrow> Inl e
      | Inr ls \<Rightarrow> year_step kw w pay t (returns_col returns (length ls) t) ls)"

text \<open>\<open>np.median\<close> of a non-empty array.\<close>

definition median :: "real list \<Rightarrow> real" where
  "median xs =
     (let ys = sort xs; n = length ys
      in if even n then (ys ! (n div 2 - 1) + ys ! (n div 2)) / 2 else ys ! (n div 2))"

definition total_net_end :: "lane \<Rightarrow> real" where
  "total_net_end s = cash s + base_treas s + risky s + loan_bucket s - loan_bal s"

definition home_equity_remaining :: "sim_kwargs \<Rightarrow> lane \<Rightarrow> real" where
  "home_equity_remaining kw s = max 0 (home_value_real kw - rm_bal s)"

definition final_metrics :: "sim_kwargs \<Rightarrow> nat \<Rightarrow> lane list \<Rightarrow> py_error + metrics" where
  "final_metrics kw n_years lanes =
     (case death_weighted_success (map fail_idx lanes) (ages_of kw n_years) of
        Inl e \<Rightarrow> Inl e
      | Inr (p_dw, p99) \<Rightarrow>
          Inr \<lparr> p_success_death_weighted = p_dw,
                p_success_to_age_99 = p99,
                median_max_dd_risky = median (map max_dd_risky lanes),
                median_max_dd_total = median (map max_dd_total lanes),
                home_equity_remaining_median = median (map (home_equity_remaining kw) lanes),
                p_any_rm_draw = mean_bool (map rm_ever_used lanes),
                rm_balance_end_median = median (map rm_bal lanes),
                risky_end_median = median (map risky lanes),
                total_net_end_median = median (map total_net_end lanes),
                net_worth_end_median =
                  median (map (\<lambda>s. total_net_end s + home_equity_remaining kw s) lanes) \<rparr>)"

text \<open>
  The state after the first \<open>n\<close> years of a call of \<open>simulate_once\<close>, from the values the
  call computes before the loop. The exceptions are raised in the order of the code:
  \<open>floor_assets[0]\<close> on an empty horizon, \<open>amort_payment\<close>, \<open>np.full(n_sims, ...)\<close> on a
  negative length, \<open>cash[0]\<close> on no lane, and the first \<open>risky *= 1.0 + returns[:, t]\<close> on
  a row count that is neither \<open>n_sims\<close> nor 1.
\<close>

definition lanes_after :: "sim_kwargs \<Rightarrow> matrix \<Rightarrow> int \<Rightarrow> nat \<Rightarrow> py_error + lane list" where
  "lanes_after kw returns E n =
     (let n_years = shape1 returns in
      if n_years = 0 then Inl IndexError
      else
        case amort_payment (real_of_int (loan_amount kw)) (loan_real_rate kw) (loan_term_years kw) of
          Inl e \<Rightarrow> Inl e
        | Inr pay \<Rightarrow>
            (case build_withdrawals (real_of_int E) n_years (ages_of kw n_years)
                    (partial_year_fraction kw) (income_applies_to_actual_spend kw)
                    (ss_annual_real kw) (ss_start_age kw) (earned_income_annual_real kw)
                    (earned_income_start_age kw) (earned_income_end_age kw) of
               Inl e \<Rightarrow> Inl e
             | Inr w \<Rightarrow>
                 (case safe_targets w 0 (reserve_years kw) (reserve_cash_fraction kw) of
                    Inl e \<Rightarrow> Inl e
                  | Inr (tgt_cash0, tgt_base0) \<Rightarrow>
                      if n_sims kw < 0 then Inl ValueError
                      else if n_sims kw = 0 then Inl IndexError
                      else if shape0 returns \<noteq> nat (n_sims kw) \<and> shape0 returns \<noteq> 1
                      then Inl ValueError
                      else years_loop kw w pay returns n
                             (replicate (nat (n_sims kw))
                                (init_lane kw n_years tgt_cash0 tgt_base0)))))"

definition simulate_once :: "sim_kwargs \<Rightarrow> matrix \<Rightarrow> int \<Rightarrow> py_error + metrics" where
  "simulate_once kw returns E =
     (case lanes_after kw returns E (shape1 returns) of
        Inl e \<Rightarrow> Inl e
      | Inr lanes \<Rightarrow> final_metrics kw (shape1 returns) lanes)"

section \<open>optimizer.py\<close>

definition objective_p :: "string \<Rightarrow> real \<Rightarrow> metrics \<Rightarrow> real" where
  "objective_p optimize_success_metric both_weight m =
     (let p_dw = p_success_death_weighted m;
          p99 = p_success_to_age_99 m
      in if optimize_success_metric = ''age_99'' then p99
         else if optimize_success_metric = ''both_min'' then min p_dw p99
         else if optimize_success_metric = ''both_weighted''
         then both_weight * p_dw + (1 - both_weight) * p99
         else p_dw)"

text \<open>\<open>int(x)\<close> of a float: truncation towards zero.\<close>

definition py_int :: "real \<Rightarrow> int" where
  "py_int x = (if x \<ge> 0 then \<lfloor>x\<rfloor> else \<lceil>x\<rceil>)"

text \<open>
  The \<open>while\<close> loop that expands the bracket, on the pairs \<open>(lo, metrics_lo)\<close> and
  \<open>(hi, metrics_hi)\<close>. \<open>sim\<close> stands for \<open>simulate_once(returns=returns, E=E, **sim_kwargs)\<close>
  as a function of \<open>E\<close> and \<open>obj\<close> for \<open>objective_p\<close>. The loop need not stop: the result is
  \<open>None\<close> when it runs forever.
\<close>

partial_function (option) expand_bracket ::
  "(int \<Rightarrow> py_error + metrics) \<Rightarrow> (metrics \<Rightarrow> real) \<Rightarrow> real \<Rightarrow>
   int \<times> metrics \<Rightarrow> int \<times> metrics \<Rightarrow> (py_error + (int \<times> metrics) \<times> (int \<times> metrics)) option" where
  "expand_bracket sim obj target lo hi =
     (if obj (snd hi) \<ge> target \<and> fst hi < 600000 then
        (let hi1 = py_int (real_of_int (fst hi) * 1.25) in
         case sim hi1 of
           Inl e \<Rightarrow> Some (Inl e)
         | Inr metrics_hi \<Rightarrow> expand_bracket sim obj target hi (hi1, metrics_hi))
      else Some (Inr (lo, hi)))"

text \<open>
  \<open>n\<close> iterations of the bisection loop; the result is \<open>lo\<close>, \<open>metrics_lo\<close> and \<open>hi\<close> after
  the loop.
\<close>

fun bisect ::
  "(int \<Rightarrow> py_error + metrics) \<Rightarrow> (metrics \<Rightarrow> real) \<Rightarrow> real \<Rightarrow>
   nat \<Rightarrow> int \<Rightarrow> metrics \<Rightarrow> int \<Rightarrow> py_error + (int \<times> metrics \<times> int)" where
  "bisect sim obj target 0 lo metrics_lo hi = Inr (lo, metrics_lo, hi)"
| "bisect sim obj target (Suc n) lo metrics_lo hi =
     (let mid = (lo + hi) div 2 in
      case sim mid of
        Inl e \<Rightarrow> Inl e
      | Inr metrics_mid \<Rightarrow>
          if obj metrics_mid \<ge> target then bisect sim obj target n mid metrics_mid hi
          else bisect sim obj target n lo metrics_lo (mid - 1))"

text \<open>
  The body of \<open>find_max_E\<close>, with the value of \<open>hi\<close> at the \<open>return\<close> kept beside the
  returned pair.
\<close>

definition search_E ::
  "(int \<Rightarrow> py_error + metrics) \<Rightarrow> (metrics \<Rightarrow> real) \<Rightarrow> real \<Rightarrow> int \<Rightarrow> int \<Rightarrow> int \<Rightarrow>
   (py_error + (int \<times> metrics \<times> int)) option" where
  "search_E sim obj target e_lo e_hi e_search_iters =
     (case sim e_lo of
        Inl e \<Rightarrow> Some (Inl e)
      | Inr metrics_lo \<Rightarrow>
          if obj metrics_lo < target then Some (Inr (e_lo, metrics_lo, e_hi))
          else
            (case sim e_hi of
               Inl e \<Rightarrow> Some (Inl e)
             | Inr metrics_hi \<Rightarrow>
                 (case expand_bracket sim obj target (e_lo, metrics_lo) (e_hi, metrics_hi) of
                    None \<Rightarrow> None
                  | Some (Inl e) \<Rightarrow> Some (Inl e)
                  | Some (Inr (lo, hi)) \<Rightarrow>
                      Some (bisect sim obj target (nat e_search_iters) (fst lo) (snd lo) (fst hi)))))"

definition find_max_E ::
  "matrix \<Rightarrow> real \<Rightarrow> int \<Rightarrow> int \<Rightarrow> int \<Rightarrow> string \<Rightarrow> real \<Rightarrow> sim_kwargs \<Rightarrow>
   (py_error + int \<times> metrics) option" where
  "find_max_E returns target e_lo e_hi e_search_iters optimize_success_metric both_weight kw =
     (case search_E (\<lambda>E. simulate_once kw returns E)
             (objective_p optimize_success_metric both_weight) target e_lo e_hi e_search_iters of
        None \<Rightarrow> None
      | Some (Inl e) \<Rightarrow> Some (Inl e)
      | Some (Inr (lo, metrics_lo, hi)) \<Rightarrow> Some (Inr (lo, metrics_lo)))"

section \<open>Concrete inputs\<close>

text \<open>
  One path, one year, starting at age 99: no income, no loan, no reverse mortgage, a floor
  of 50, a reserve of one year of spending, half of it in cash, and a return of -75 percent.
  Every number is a binary fraction, so the floating-point run of the code computes exactly
  the values of the model.
\<close>

definition kw_plain :: sim_kwargs where
  "kw_plain = \<lparr> n_sims = 1, start_portfolio = 100, start_age = 99, partial_year_fraction = 1,
     seed = 0, reserve_years = 1, reserve_cash_fraction = 1/2, safe_real_return = 0,
     floor_annual_real = 50, income_applies_to_actual_spend = True, ss_annual_real = 0,
     ss_start_age = 63, earned_income_annual_real = 0, earned_income_start_age = 54,
     earned_income_end_age = 62, allow_surplus_savings = False,
     surplus_allocation = ''reserve_first'', dd1 = 1/8, dd2 = 1/4, cut1 = 1/2, cut2 = 1,
     baseline_e_for_flex = 0, baseline_flex_pre = 0, baseline_net_post_ss = 0,
     baseline_flex_post = 0, rm_open_age = 200, home_value_real = 0, rm_plf_at_open = 0,
     rm_limit_real_growth = 0, rm_bal_real_rate = 0, rm_partial_cover = 1/2,
     rm_repay_rate = 1/8, payoff_dd_threshold = 1/16, loan_amount = 0, loan_real_rate = 1/32,
     loan_term_years = 30, loan_bucket_real_return = 0, loan_bucket_use_dd = 1/8,
     loan_bucket_partial_cover = 1/2 \<rparr>"

definition returns_crash :: matrix where
  "returns_crash = \<lparr> shape0 = 1, shape1 = 1, entry = (\<lambda>i t. - 3/4) \<rparr>"

text \<open>
  One path, two years from age 98 with returns 0: a portfolio of 800 all in the risky asset
  (no reserve), a floor of 4000 that no year can fund, and a loan of 100 at a real rate of
  100 percent over one year, whose payment is 200. The reverse mortgage never opens.
  \<open>lane_failed\<close> is the state of the path after year 0.
\<close>

definition kw_loan :: sim_kwargs where
  "kw_loan = \<lparr> n_sims = 1, start_portfolio = 800, start_age = 98, partial_year_fraction = 1,
     seed = 0, reserve_years = 0, reserve_cash_fraction = 1/2, safe_real_return = 0,
     floor_annual_real = 4000, income_applies_to_actual_spend = True, ss_annual_real = 0,
     ss_start_age = 63, earned_income_annual_real = 0, earned_income_start_age = 54,
     earned_income_end_age = 62, allow_surplus_savings = False,
     surplus_allocation = ''reserve_first'', dd1 = 1/8, dd2 = 1/4, cut1 = 1/2, cut2 = 1,
     baseline_e_for_flex = 0, baseline_flex_pre = 0, baseline_net_post_ss = 0,
     baseline_flex_post = 0, rm_open_age = 200, home_value_real = 0, rm_plf_at_open = 0,
     rm_limit_real_growth = 0, rm_bal_real_rate = 0, rm_partial_cover = 1/2,
     rm_repay_rate = 1/8, payoff_dd_threshold = 1/16, loan_amount = 100, loan_real_rate = 1,
     loan_term_years = 1, loan_bucket_real_return = 0, loan_bucket_use_dd = 1/8,
     loan_bucket_partial_cover = 1/2 \<rparr>"

definition returns_flat2 :: matrix where
  "returns_flat2 = \<lparr> shape0 = 1, shape1 = 2, entry = (\<lambda>i t. 0) \<rparr>"


definition lane_failed :: lane where
  "lane_failed = \<lparr> cash = 0, base_treas = 0, risky = 600, loan_bucket = 100, loan_bal = 0,
     hwm = 800, max_dd_risky = 0, hwm_total = 800, max_dd_total = 0, rm_limit = 0, rm_bal = 0,
     rm_ever_used = False, failed = True, fail_idx = 0 \<rparr>"

section \<open>Properties of the loan helpers\<close>

text \<open>
  Claim C9. For a principal \<open>P \<le> 0\<close> both helpers return 0. For \<open>P > 0\<close> and \<open>r \<noteq> 0\<close>
  with \<open>(1 + r) ^ (- n) \<noteq> 1\<close>, \<open>amort_payment\<close> returns \<open>r P / (1 - (1 + r) ^ (- n))\<close>,
  and \<open>loan_balance_after_k\<close> returns \<open>P (1 + r) ^ k - pay ((1 + r) ^ k - 1) / r\<close>; after
  0 payments the balance is \<open>P\<close>. The powers must be defined for the formulas to have a
  value: a base \<open>1 + r = 0\<close> with a negative exponent is the division by zero that Python
  raises, so those inputs are outside both formulas.
\<close>

theorem loan_formulas:
  "(P \<le> 0 \<longrightarrow> amort_payment P r n = Inr 0 \<and> loan_balance_after_k P r pay k = Inr 0)
   \<and> (0 < P \<and> r \<noteq> 0 \<and> (1 + r \<noteq> 0 \<or> n \<le> 0) \<and> (1 + r) powi (- n) \<noteq> 1
        \<longrightarrow> amort_payment P r n = Inr ((r * P) / (1 - (1 + r) powi (- n))))
   \<and> (0 < P \<and> r \<noteq> 0 \<and> (1 + r \<noteq> 0 \<or> 0 \<le> k)
        \<longrightarrow> loan_balance_after_k P r pay k
            = Inr (P * (1 + r) powi k - pay * ((1 + r) powi k - 1) / r))
   \<and> (0 < P \<and> r \<noteq> 0 \<longrightarrow> loan_balance_after_k P r pay 0 = Inr P)"
  by (auto simp: amort_payment_def loan_balance_after_k_def py_pow_def py_div_def)

theorem loan_formulas_witness:
  "amort_payment 0 1 1 = Inr 0 \<and> loan_balance_after_k 0 1 200 1 = Inr 0
   \<and> amort_payment 100 1 1 = Inr 200
   \<and> loan_balance_after_k 100 1 200 1 = Inr 0
   \<and> loan_balance_after_k 100 1 200 0 = Inr 100"
  using loan_formulas [of 0 1 1 200 1] loan_formulas [of 100 1 1 200 1]
  by (simp add: power_int_minus)

section \<open>Arguments the kernel does not read\<close>

lemma frame_fields:
  "n_sims (kw\<lparr>seed := sd, allow_surplus_savings := b\<rparr>) = n_sims kw"
  "start_portfolio (kw\<lparr>seed := sd, allow_surplus_savings := b\<rparr>) = start_portfolio kw"
  "start_age (kw\<lparr>seed := sd, allow_surplus_savings := b\<rparr>) = start_age kw"
  "partial_year_fraction (kw\<lparr>seed := sd, allow_surplus_savings := b\<rparr>) = partial_year_fraction kw"
  "reserve_years (kw\<lparr>seed := sd, allow_surplus_savings := b\<rparr>) = reserve_years kw"
  "reserve_cash_fraction (kw\<lparr>seed := sd, allow_surplus_savings := b\<rparr>) = reserve_cash_fraction kw"
  "safe_real_return (kw\<lparr>seed := sd, allow_surplus_savings := b\<rparr>) = safe_real_return kw"
  "floor_annual_real (kw\<lparr>seed := sd, allow_surplus_savings := b\<rparr>) = floor_annual_real kw"
  "income_applies_to_actual_spend (kw\<lparr>seed := sd, allow_surplus_savings := b\<rparr>) = income_applies_to_actual_spend kw"
  "ss_annual_real (kw\<lparr>seed := sd, allow_surplus_savings := b\<rparr>) = ss_annual_real kw"
  "ss_start_age (kw\<lparr>seed := sd, allow_surplus_savings := b\<rparr>) = ss_start_age kw"
  "earned_income_annual_real (kw\<lparr>seed := sd, allow_surplus_savings := b\<rparr>) = earned_income_annual_real kw"
  "earned_income_start_age (kw\<lparr>seed := sd, allow_surplus_savings := b\<rparr>) = earned_income_start_age kw"
  "earned_income_end_age (kw\<lparr>seed := sd, allow_surplus_savings := b\<rparr>) = earned_income_end_age kw"
  "surplus_allocation (kw\<lparr>seed := sd, allow_surplus_savings := b\<rparr>) = surplus_allocation kw"
  "dd1 (kw\<lparr>seed := sd, allow_surplus_savings := b\<rparr>) = dd1 kw"
  "dd2 (kw\<lparr>seed := sd, allow_surplus_savings := b\<rparr>) = dd2 kw"
  "cut1 (kw\<lparr>seed := sd, allow_surplus_savings := b\<rparr>) = cut1 kw"
  "cut2 (kw\<lparr>seed := sd, allow_surplus_savings := b\<rparr>) = cut2 kw"
  "baseline_e_for_flex (kw\<lparr>seed := sd, allow_surplus_savings := b\<rparr>) = baseline_e_for_flex kw"
  "baseline_flex_pre (kw\<lparr>seed := sd, allow_surplus_savings := b\<rparr>) = baseline_flex_pre kw"
  "baseline_net_post_ss (kw\<lparr>seed := sd, allow_surplus_savings := b\<rparr>) = baseline_net_post_ss kw"
  "baseline_flex_post (kw\<lparr>seed := sd, allow_surplus_savings := b\<rparr>) = baseline_flex_post kw"
  "rm_open_age (kw\<lparr>seed := sd, allow_surplus_savings := b\<rparr>) = rm_open_age kw"
  "home_value_real (kw\<lparr>seed := sd, allow_surplus_savings := b\<rparr>) = home_value_real kw"
  "rm_plf_at_open (kw\<lparr>seed := sd, allow_surplus_savings := b\<rparr>) = rm_plf_at_open kw"
  "rm_limit_real_growth (kw\<lparr>seed := sd, allow_surplus_savings := b\<rparr>) = rm_limit_real_growth kw"
  "rm_bal_real_rate (kw\<lparr>seed := sd, allow_surplus_savings := b\<rparr>) = rm_bal_real_rate kw"
  "rm_partial_cover (kw\<lparr>seed := sd, allow_surplus_savings := b\<rparr>) = rm_partial_cover kw"
  "rm_repay_rate (kw\<lparr>seed := sd, allow_surplus_savings := b\<rparr>) = rm_repay_rate kw"
  "payoff_dd_threshold (kw\<lparr>seed := sd, allow_surplus_savings := b\<rparr>) = payoff_dd_threshold kw"
  "loan_amount (kw\<lparr>seed := sd, allow_surplus_savings := b\<rparr>) = loan_amount kw"
  "loan_real_rate (kw\<lparr>seed := sd, allow_surplus_savings := b\<rparr>) = loan_real_rate kw"
  "loan_term_years (kw\<lparr>seed := sd, allow_surplus_savings := b\<rparr>) = loan_term_years kw"
  "loan_bucket_real_return (kw\<lparr>seed := sd, allow_surplus_savings := b\<rparr>) = loan_bucket_real_return kw"
  "loan_bucket_use_dd (kw\<lparr>seed := sd, allow_surplus_savings := b\<rparr>) = loan_bucket_use_dd kw"
  "loan_bucket_partial_cover (kw\<lparr>seed := sd, allow_surplus_savings := b\<rparr>) = loan_bucket_partial_cover kw"
  by simp_all

lemma frame_consts:
  "has_loan (kw\<lparr>seed := sd, allow_surplus_savings := b\<rparr>) = has_loan kw"
  "rm_open_t (kw\<lparr>seed := sd, allow_surplus_savings := b\<rparr>) = rm_open_t kw"
  "rm_limit_open (kw\<lparr>seed := sd, allow_surplus_savings := b\<rparr>) = rm_limit_open kw"
  "pre_flex_pct (kw\<lparr>seed := sd, allow_surplus_savings := b\<rparr>) = pre_flex_pct kw"
  "post_flex_pct (kw\<lparr>seed := sd, allow_surplus_savings := b\<rparr>) = post_flex_pct kw"
  "floor_assets (kw\<lparr>seed := sd, allow_surplus_savings := b\<rparr>) = floor_assets kw"
  "ages_of (kw\<lparr>seed := sd, allow_surplus_savings := b\<rparr>) = ages_of kw"
  "age_at (kw\<lparr>seed := sd, allow_surplus_savings := b\<rparr>) = age_at kw"
  "home_equity_remaining (kw\<lparr>seed := sd, allow_surplus_savings := b\<rparr>) = home_equity_remaining kw"
  unfolding has_loan_def rm_open_t_def rm_limit_open_def pre_flex_pct_def post_flex_pct_def floor_assets_def ages_of_def age_at_def home_equity_remaining_def
  by (simp_all only: frame_fields)

lemma frame_draws:
  "draw_bucket_gated (kw\<lparr>seed := sd, allow_surplus_savings := b\<rparr>) = draw_bucket_gated kw"
  "draw_bucket_partial (kw\<lparr>seed := sd, allow_surplus_savings := b\<rparr>) = draw_bucket_partial kw"
  "draw_rm_partial (kw\<lparr>seed := sd, allow_surplus_savings := b\<rparr>) = draw_rm_partial kw"
  unfolding draw_bucket_gated_def draw_bucket_partial_def draw_rm_partial_def
  by (simp_all only: frame_fields)

lemma frame_spend:
  "income_scalar (kw\<lparr>seed := sd, allow_surplus_savings := b\<rparr>) = income_scalar kw"
  "desired_spend (kw\<lparr>seed := sd, allow_surplus_savings := b\<rparr>) = desired_spend kw"
  "max_feasible (kw\<lparr>seed := sd, allow_surplus_savings := b\<rparr>) = max_feasible kw"
  "add_surplus (kw\<lparr>seed := sd, allow_surplus_savings := b\<rparr>) = add_surplus kw"
  "fund_spending (kw\<lparr>seed := sd, allow_surplus_savings := b\<rparr>) = fund_spending kw"
  "refill_reserve (kw\<lparr>seed := sd, allow_surplus_savings := b\<rparr>) = refill_reserve kw"
  "repay_rm (kw\<lparr>seed := sd, allow_surplus_savings := b\<rparr>) = repay_rm kw"
  unfolding income_scalar_def desired_spend_def max_feasible_def add_surplus_def fund_spending_def refill_reserve_def repay_rm_def
  by (simp_all only: frame_fields frame_consts frame_draws)

lemma frame_spend2:
  "asset_desired (kw\<lparr>seed := sd, allow_surplus_savings := b\<rparr>) = asset_desired kw"
  "floor_need_assets (kw\<lparr>seed := sd, allow_surplus_savings := b\<rparr>) = floor_need_assets kw"
  "surplus_of (kw\<lparr>seed := sd, allow_surplus_savings := b\<rparr>) = surplus_of kw"
  unfolding asset_desired_def floor_need_assets_def surplus_of_def
  by (simp_all only: frame_fields frame_consts frame_spend)

lemma frame_spend3:
  "mark_infeasible (kw\<lparr>seed := sd, allow_surplus_savings := b\<rparr>) = mark_infeasible kw"
  "spend_assets (kw\<lparr>seed := sd, allow_surplus_savings := b\<rparr>) = spend_assets kw"
  unfolding mark_infeasible_def spend_assets_def
  by (simp_all only: frame_fields frame_spend2)

lemma frame_pre:
  "grow (kw\<lparr>seed := sd, allow_surplus_savings := b\<rparr>) = grow kw"
  "pay_loan (kw\<lparr>seed := sd, allow_surplus_savings := b\<rparr>) = pay_loan kw"
  "rm_open (kw\<lparr>seed := sd, allow_surplus_savings := b\<rparr>) = rm_open kw"
  "rm_growth (kw\<lparr>seed := sd, allow_surplus_savings := b\<rparr>) = rm_growth kw"
  "init_lane (kw\<lparr>seed := sd, allow_surplus_savings := b\<rparr>) = init_lane kw"
  "scheduled_loan_bal (kw\<lparr>seed := sd, allow_surplus_savings := b\<rparr>) = scheduled_loan_bal kw"
  unfolding grow_def pay_loan_def rm_open_def rm_growth_def init_lane_def scheduled_loan_bal_def
  by (simp_all only: frame_fields frame_consts frame_draws)

lemma frame_lane:
  "lane_pre (kw\<lparr>seed := sd, allow_surplus_savings := b\<rparr>) = lane_pre kw"
  "lane_post (kw\<lparr>seed := sd, allow_surplus_savings := b\<rparr>) = lane_post kw"
  unfolding lane_pre_def lane_post_def
  by (simp_all only: frame_fields frame_consts frame_pre frame_spend frame_spend2 frame_spend3)

lemma frame_year:
  "year_step (kw\<lparr>seed := sd, allow_surplus_savings := b\<rparr>) = year_step kw"
  unfolding year_step_def
  by (simp_all only: frame_fields frame_lane frame_pre frame_spend2)

lemma frame_loop:
  "years_loop (kw\<lparr>seed := sd, allow_surplus_savings := b\<rparr>) w pay returns n lanes
     = years_loop kw w pay returns n lanes"
  by (induction n) (simp_all only: years_loop.simps frame_year)

lemma frame_metrics:
  "final_metrics (kw\<lparr>seed := sd, allow_surplus_savings := b\<rparr>) = final_metrics kw"
  unfolding final_metrics_def
  by (simp_all only: frame_fields frame_consts)

lemma frame_lanes_after:
  "lanes_after (kw\<lparr>seed := sd, allow_surplus_savings := b\<rparr>) returns E n = lanes_after kw returns E n"
  unfolding lanes_after_def
  by (simp only: frame_fields frame_consts frame_pre frame_loop)

text \<open>
  Claim C10. Two calls of \<open>simulate_once\<close> that differ only in \<open>seed\<close> and
  \<open>allow_surplus_savings\<close> (same \<open>returns\<close>, same \<open>E\<close>, every other argument equal)
  give the same result: the kernel reads neither argument.
\<close>

theorem seed_and_surplus_flag_unused:
  "simulate_once (kw\<lparr>seed := sd, allow_surplus_savings := b\<rparr>) returns E
     = simulate_once kw returns E"
  unfolding simulate_once_def
  by (simp only: frame_lanes_after frame_metrics)


section \<open>The year loop, lane by lane\<close>

text \<open>
  Every lane of the state after a year comes from one lane of the state before it, and a
  property that one year of one lane preserves holds after any number of years.
\<close>

lemma year_step_lanes:
  assumes "year_step kw w pay t col lanes = Inr lanes'" and "s' \<in> set lanes'"
  shows "\<exists>s \<in> set lanes. \<exists>r new_bal tgts any.
           scheduled_loan_bal kw pay t = Inr new_bal
         \<and> safe_targets w t (reserve_years kw) (reserve_cash_fraction kw) = Inr tgts
         \<and> s' = lane_post kw w tgts any t (snd (lane_pre kw pay new_bal t r s))
                   (fst (lane_pre kw pay new_bal t r s))"
proof -
  from assms(1) obtain new_bal tgts where
    nb: "scheduled_loan_bal kw pay t = Inr new_bal" and
    tg: "safe_targets w t (reserve_years kw) (reserve_cash_fraction kw) = Inr tgts"
    by (auto simp: year_step_def split: sum.splits)
  define pre where "pre = map2 (lane_pre kw pay new_bal t) col lanes"
  define any where "any = list_ex (\<lambda>(s, drawdown). surplus_of kw w t drawdown > 0) pre"
  from assms(1) nb tg have "lanes' = map (\<lambda>(s, drawdown). lane_post kw w tgts any t drawdown s) pre"
    by (simp add: year_step_def pre_def any_def Let_def)
  with assms(2) obtain p where p: "p \<in> set pre" and s': "s' = lane_post kw w tgts any t (snd p) (fst p)"
    by (auto simp: case_prod_beta)
  from p obtain r s where "(r, s) \<in> set (zip col lanes)" and "p = lane_pre kw pay new_bal t r s"
    by (auto simp: pre_def)
  then have "s \<in> set lanes" by (auto dest: set_zip_rightD)
  with nb tg s' \<open>p = _\<close> show ?thesis by blast
qed

lemma years_loop_invariant:
  assumes step: "\<And>t r new_bal tgts any s. P s \<Longrightarrow> scheduled_loan_bal kw pay t = Inr new_bal \<Longrightarrow>
            P (lane_post kw w tgts any t (snd (lane_pre kw pay new_bal t r s))
                 (fst (lane_pre kw pay new_bal t r s)))"
  shows "years_loop kw w pay returns n lanes0 = Inr lanes \<Longrightarrow> \<forall>s\<in>set lanes0. P s
         \<Longrightarrow> \<forall>s\<in>set lanes. P s"
proof (induction n arbitrary: lanes)
  case 0
  then show ?case by simp
next
  case (Suc n)
  from Suc.prems(1) obtain ls where ls: "years_loop kw w pay returns n lanes0 = Inr ls"
    and st: "year_step kw w pay n (returns_col returns (length ls) n) ls = Inr lanes"
    by (auto split: sum.splits)
  from Suc.IH[OF ls Suc.prems(2)] have P: "\<forall>s\<in>set ls. P s" .
  show ?case
  proof
    fix s' assume "s' \<in> set lanes"
    from year_step_lanes[OF st this] P step show "P s'" by blast
  qed
qed


section \<open>What each statement leaves unchanged\<close>

lemma draw_cash_frame:
  "base_treas (fst (draw_cash s rem)) = base_treas s"
  "risky (fst (draw_cash s rem)) = risky s"
  "loan_bucket (fst (draw_cash s rem)) = loan_bucket s"
  "loan_bal (fst (draw_cash s rem)) = loan_bal s"
  "hwm (fst (draw_cash s rem)) = hwm s"
  "max_dd_risky (fst (draw_cash s rem)) = max_dd_risky s"
  "hwm_total (fst (draw_cash s rem)) = hwm_total s"
  "max_dd_total (fst (draw_cash s rem)) = max_dd_total s"
  "rm_limit (fst (draw_cash s rem)) = rm_limit s"
  "rm_bal (fst (draw_cash s rem)) = rm_bal s"
  "rm_ever_used (fst (draw_cash s rem)) = rm_ever_used s"
  "failed (fst (draw_cash s rem)) = failed s"
  "fail_idx (fst (draw_cash s rem)) = fail_idx s"
  by (simp_all add: draw_cash_def split_beta)

lemma draw_base_frame:
  "cash (fst (draw_base s rem)) = cash s"
  "risky (fst (draw_base s rem)) = risky s"
  "loan_bucket (fst (draw_base s rem)) = loan_bucket s"
  "loan_bal (fst (draw_base s rem)) = loan_bal s"
  "hwm (fst (draw_base s rem)) = hwm s"
  "max_dd_risky (fst (draw_base s rem)) = max_dd_risky s"
  "hwm_total (fst (draw_base s rem)) = hwm_total s"
  "max_dd_total (fst (draw_base s rem)) = max_dd_total s"
  "rm_limit (fst (draw_base s rem)) = rm_limit s"
  "rm_bal (fst (draw_base s rem)) = rm_bal s"
  "rm_ever_used (fst (draw_base s rem)) = rm_ever_used s"
  "failed (fst (draw_base s rem)) = failed s"
  "fail_idx (fst (draw_base s rem)) = fail_idx s"
  by (simp_all add: draw_base_def split_beta)

lemma draw_risky_frame:
  "cash (fst (draw_risky s rem)) = cash s"
  "base_treas (fst (draw_risky s rem)) = base_treas s"
  "loan_bucket (fst (draw_risky s rem)) = loan_bucket s"
  "loan_bal (fst (draw_risky s rem)) = loan_bal s"
  "hwm (fst (draw_risky s rem)) = hwm s"
  "max_dd_risky (fst (draw_risky s rem)) = max_dd_risky s"
  "hwm_total (fst (draw_risky s rem)) = hwm_total s"
  "max_dd_total (fst (draw_risky s rem)) = max_dd_total s"
  "rm_limit (fst (draw_risky s rem)) = rm_limit s"
  "rm_bal (fst (draw_risky s rem)) = rm_bal s"
  "rm_ever_used (fst (draw_risky s rem)) = rm_ever_used s"
  "failed (fst (draw_risky s rem)) = failed s"
  "fail_idx (fst (draw_risky s rem)) = fail_idx s"
  by (simp_all add: draw_risky_def split_beta)

lemma draw_bucket_frame:
  "cash (fst (draw_bucket s rem)) = cash s"
  "base_treas (fst (draw_bucket s rem)) = base_treas s"
  "risky (fst (draw_bucket s rem)) = risky s"
  "loan_bal (fst (draw_bucket s rem)) = loan_bal s"
  "hwm (fst (draw_bucket s rem)) = hwm s"
  "max_dd_risky (fst (draw_bucket s rem)) = max_dd_risky s"
  "hwm_total (fst (draw_bucket s rem)) = hwm_total s"
  "max_dd_total (fst (draw_bucket s rem)) = max_dd_total s"
  "rm_limit (fst (draw_bucket s rem)) = rm_limit s"
  "rm_bal (fst (draw_bucket s rem)) = rm_bal s"
  "rm_ever_used (fst (draw_bucket s rem)) = rm_ever_used s"
  "failed (fst (draw_bucket s rem)) = failed s"
  "fail_idx (fst (draw_bucket s rem)) = fail_idx s"
  by (simp_all add: draw_bucket_def split_beta)

lemma draw_rm_frame:
  "cash (fst (draw_rm s rem)) = cash s"
  "base_treas (fst (draw_rm s rem)) = base_treas s"
  "risky (fst (draw_rm s rem)) = risky s"
  "loan_bucket (fst (draw_rm s rem)) = loan_bucket s"
  "loan_bal (fst (draw_rm s rem)) = loan_bal s"
  "hwm (fst (draw_rm s rem)) = hwm s"
  "max_dd_risky (fst (draw_rm s rem)) = max_dd_risky s"
  "hwm_total (fst (draw_rm s rem)) = hwm_total s"
  "max_dd_total (fst (draw_rm s rem)) = max_dd_total s"
  "rm_limit (fst (draw_rm s rem)) = rm_limit s"
  "rm_ever_used (fst (draw_rm s rem)) = rm_ever_used s"
  "failed (fst (draw_rm s rem)) = failed s"
  "fail_idx (fst (draw_rm s rem)) = fail_idx s"
  by (simp_all add: draw_rm_def Let_def)

lemma draw_bucket_gated_frame:
  "cash (fst (draw_bucket_gated kw dd s rem)) = cash s"
  "base_treas (fst (draw_bucket_gated kw dd s rem)) = base_treas s"
  "risky (fst (draw_bucket_gated kw dd s rem)) = risky s"
  "loan_bal (fst (draw_bucket_gated kw dd s rem)) = loan_bal s"
  "hwm (fst (draw_bucket_gated kw dd s rem)) = hwm s"
  "max_dd_risky (fst (draw_bucket_gated kw dd s rem)) = max_dd_risky s"
  "hwm_total (fst (draw_bucket_gated kw dd s rem)) = hwm_total s"
  "max_dd_total (fst (draw_bucket_gated kw dd s rem)) = max_dd_total s"
  "rm_limit (fst (draw_bucket_gated kw dd s rem)) = rm_limit s"
  "rm_bal (fst (draw_bucket_gated kw dd s rem)) = rm_bal s"
  "rm_ever_used (fst (draw_bucket_gated kw dd s rem)) = rm_ever_used s"
  "failed (fst (draw_bucket_gated kw dd s rem)) = failed s"
  "fail_idx (fst (draw_bucket_gated kw dd s rem)) = fail_idx s"
  by (simp_all add: draw_bucket_gated_def Let_def)

lemma draw_bucket_partial_frame:
  "cash (fst (draw_bucket_partial kw dd s rem)) = cash s"
  "base_treas (fst (draw_bucket_partial kw dd s rem)) = base_treas s"
  "risky (fst (draw_bucket_partial kw dd s rem)) = risky s"
  "loan_bal (fst (draw_bucket_partial kw dd s rem)) = loan_bal s"
  "hwm (fst (draw_bucket_partial kw dd s rem)) = hwm s"
  "max_dd_risky (fst (draw_bucket_partial kw dd s rem)) = max_dd_risky s"
  "hwm_total (fst (draw_bucket_partial kw dd s rem)) = hwm_total s"
  "max_dd_total (fst (draw_bucket_partial kw dd s rem)) = max_dd_total s"
  "rm_limit (fst (draw_bucket_partial kw dd s rem)) = rm_limit s"
  "rm_bal (fst (draw_bucket_partial kw dd s rem)) = rm_bal s"
  "rm_ever_used (fst (draw_bucket_partial kw dd s rem)) = rm_ever_used s"
  "failed (fst (draw_bucket_partial kw dd s rem)) = failed s"
  "fail_idx (fst (draw_bucket_partial kw dd s rem)) = fail_idx s"
  by (simp_all add: draw_bucket_partial_def Let_def)

lemma draw_rm_partial_frame:
  "cash (fst (draw_rm_partial kw dd s rem)) = cash s"
  "base_treas (fst (draw_rm_partial kw dd s rem)) = base_treas s"
  "risky (fst (draw_rm_partial kw dd s rem)) = risky s"
  "loan_bucket (fst (draw_rm_partial kw dd s rem)) = loan_bucket s"
  "loan_bal (fst (draw_rm_partial kw dd s rem)) = loan_bal s"
  "hwm (fst (draw_rm_partial kw dd s rem)) = hwm s"
  "max_dd_risky (fst (draw_rm_partial kw dd s rem)) = max_dd_risky s"
  "hwm_total (fst (draw_rm_partial kw dd s rem)) = hwm_total s"
  "max_dd_total (fst (draw_rm_partial kw dd s rem)) = max_dd_total s"
  "rm_limit (fst (draw_rm_partial kw dd s rem)) = rm_limit s"
  "rm_ever_used (fst (draw_rm_partial kw dd s rem)) = rm_ever_used s"
  "failed (fst (draw_rm_partial kw dd s rem)) = failed s"
  "fail_idx (fst (draw_rm_partial kw dd s rem)) = fail_idx s"
  by (simp_all add: draw_rm_partial_def Let_def)

lemma mark_failed_frame:
  "cash (mark_failed t c s) = cash s"
  "base_treas (mark_failed t c s) = base_treas s"
  "risky (mark_failed t c s) = risky s"
  "loan_bucket (mark_failed t c s) = loan_bucket s"
  "loan_bal (mark_failed t c s) = loan_bal s"
  "hwm (mark_failed t c s) = hwm s"
  "max_dd_risky (mark_failed t c s) = max_dd_risky s"
  "hwm_total (mark_failed t c s) = hwm_total s"
  "max_dd_total (mark_failed t c s) = max_dd_total s"
  "rm_limit (mark_failed t c s) = rm_limit s"
  "rm_bal (mark_failed t c s) = rm_bal s"
  "rm_ever_used (mark_failed t c s) = rm_ever_used s"
  by (simp_all add: mark_failed_def Let_def)

lemma grow_frame:
  "loan_bal (grow kw r s) = loan_bal s"
  "hwm (grow kw r s) = hwm s"
  "max_dd_risky (grow kw r s) = max_dd_risky s"
  "hwm_total (grow kw r s) = hwm_total s"
  "max_dd_total (grow kw r s) = max_dd_total s"
  "rm_limit (grow kw r s) = rm_limit s"
  "rm_bal (grow kw r s) = rm_bal s"
  "rm_ever_used (grow kw r s) = rm_ever_used s"
  "failed (grow kw r s) = failed s"
  "fail_idx (grow kw r s) = fail_idx s"
  by (simp_all add: grow_def)

lemma update_drawdown_frame:
  "cash (fst (update_drawdown s)) = cash s"
  "base_treas (fst (update_drawdown s)) = base_treas s"
  "risky (fst (update_drawdown s)) = risky s"
  "loan_bucket (fst (update_drawdown s)) = loan_bucket s"
  "loan_bal (fst (update_drawdown s)) = loan_bal s"
  "rm_limit (fst (update_drawdown s)) = rm_limit s"
  "rm_bal (fst (update_drawdown s)) = rm_bal s"
  "rm_ever_used (fst (update_drawdown s)) = rm_ever_used s"
  "failed (fst (update_drawdown s)) = failed s"
  "fail_idx (fst (update_drawdown s)) = fail_idx s"
  by (simp_all add: update_drawdown_def Let_def)

lemma rm_growth_frame:
  "cash (rm_growth kw s) = cash s"
  "base_treas (rm_growth kw s) = base_treas s"
  "risky (rm_growth kw s) = risky s"
  "loan_bucket (rm_growth kw s) = loan_bucket s"
  "loan_bal (rm_growth kw s) = loan_bal s"
  "hwm (rm_growth kw s) = hwm s"
  "max_dd_risky (rm_growth kw s) = max_dd_risky s"
  "hwm_total (rm_growth kw s) = hwm_total s"
  "max_dd_total (rm_growth kw s) = max_dd_total s"
  "rm_ever_used (rm_growth kw s) = rm_ever_used s"
  "failed (rm_growth kw s) = failed s"
  "fail_idx (rm_growth kw s) = fail_idx s"
  by (simp_all add: rm_growth_def)

lemma add_surplus_frame:
  "loan_bucket (add_surplus kw tgts sp s) = loan_bucket s"
  "loan_bal (add_surplus kw tgts sp s) = loan_bal s"
  "hwm (add_surplus kw tgts sp s) = hwm s"
  "max_dd_risky (add_surplus kw tgts sp s) = max_dd_risky s"
  "hwm_total (add_surplus kw tgts sp s) = hwm_total s"
  "max_dd_total (add_surplus kw tgts sp s) = max_dd_total s"
  "rm_limit (add_surplus kw tgts sp s) = rm_limit s"
  "rm_bal (add_surplus kw tgts sp s) = rm_bal s"
  "rm_ever_used (add_surplus kw tgts sp s) = rm_ever_used s"
  "failed (add_surplus kw tgts sp s) = failed s"
  "fail_idx (add_surplus kw tgts sp s) = fail_idx s"
  by (simp_all add: add_surplus_def Let_def split_beta)

lemma refill_reserve_frame:
  "loan_bucket (refill_reserve kw tgts dd s) = loan_bucket s"
  "loan_bal (refill_reserve kw tgts dd s) = loan_bal s"
  "hwm (refill_reserve kw tgts dd s) = hwm s"
  "max_dd_risky (refill_reserve kw tgts dd s) = max_dd_risky s"
  "hwm_total (refill_reserve kw tgts dd s) = hwm_total s"
  "max_dd_total (refill_reserve kw tgts dd s) = max_dd_total s"
  "rm_limit (refill_reserve kw tgts dd s) = rm_limit s"
  "rm_bal (refill_reserve kw tgts dd s) = rm_bal s"
  "rm_ever_used (refill_reserve kw tgts dd s) = rm_ever_used s"
  "failed (refill_reserve kw tgts dd s) = failed s"
  "fail_idx (refill_reserve kw tgts dd s) = fail_idx s"
  by (simp_all add: refill_reserve_def Let_def split_beta)

lemma repay_rm_frame:
  "cash (repay_rm kw dd s) = cash s"
  "base_treas (repay_rm kw dd s) = base_treas s"
  "loan_bucket (repay_rm kw dd s) = loan_bucket s"
  "loan_bal (repay_rm kw dd s) = loan_bal s"
  "hwm (repay_rm kw dd s) = hwm s"
  "max_dd_risky (repay_rm kw dd s) = max_dd_risky s"
  "hwm_total (repay_rm kw dd s) = hwm_total s"
  "max_dd_total (repay_rm kw dd s) = max_dd_total s"
  "rm_limit (repay_rm kw dd s) = rm_limit s"
  "rm_ever_used (repay_rm kw dd s) = rm_ever_used s"
  "failed (repay_rm kw dd s) = failed s"
  "fail_idx (repay_rm kw dd s) = fail_idx s"
  by (simp_all add: repay_rm_def Let_def)

lemma latch_rm_frame:
  "cash (latch_rm s) = cash s"
  "base_treas (latch_rm s) = base_treas s"
  "risky (latch_rm s) = risky s"
  "loan_bucket (latch_rm s) = loan_bucket s"
  "loan_bal (latch_rm s) = loan_bal s"
  "hwm (latch_rm s) = hwm s"
  "max_dd_risky (latch_rm s) = max_dd_risky s"
  "hwm_total (latch_rm s) = hwm_total s"
  "max_dd_total (latch_rm s) = max_dd_total s"
  "rm_limit (latch_rm s) = rm_limit s"
  "rm_bal (latch_rm s) = rm_bal s"
  "failed (latch_rm s) = failed s"
  "fail_idx (latch_rm s) = fail_idx s"
  by (simp_all add: latch_rm_def)

lemma mark_infeasible_frame:
  "cash (mark_infeasible kw t mf s) = cash s"
  "base_treas (mark_infeasible kw t mf s) = base_treas s"
  "risky (mark_infeasible kw t mf s) = risky s"
  "loan_bucket (mark_infeasible kw t mf s) = loan_bucket s"
  "loan_bal (mark_infeasible kw t mf s) = loan_bal s"
  "hwm (mark_infeasible kw t mf s) = hwm s"
  "max_dd_risky (mark_infeasible kw t mf s) = max_dd_risky s"
  "hwm_total (mark_infeasible kw t mf s) = hwm_total s"
  "max_dd_total (mark_infeasible kw t mf s) = max_dd_total s"
  "rm_limit (mark_infeasible kw t mf s) = rm_limit s"
  "rm_bal (mark_infeasible kw t mf s) = rm_bal s"
  "rm_ever_used (mark_infeasible kw t mf s) = rm_ever_used s"
  by (simp_all add: mark_infeasible_def mark_failed_frame)

lemma fund_spending_frame:
  "loan_bal (fund_spending kw dd sp s) = loan_bal s"
  "hwm (fund_spending kw dd sp s) = hwm s"
  "max_dd_risky (fund_spending kw dd sp s) = max_dd_risky s"
  "hwm_total (fund_spending kw dd sp s) = hwm_total s"
  "max_dd_total (fund_spending kw dd sp s) = max_dd_total s"
  "rm_limit (fund_spending kw dd sp s) = rm_limit s"
  "rm_ever_used (fund_spending kw dd sp s) = rm_ever_used s"
  "failed (fund_spending kw dd sp s) = failed s"
  "fail_idx (fund_spending kw dd sp s) = fail_idx s"
  unfolding fund_spending_def Let_def split_beta
  by (simp_all only: draw_cash_frame draw_base_frame draw_risky_frame draw_bucket_frame draw_rm_frame draw_bucket_gated_frame draw_bucket_partial_frame draw_rm_partial_frame mark_failed_frame)

lemma pay_loan_frame:
  "hwm (pay_loan kw pay nb t dd s) = hwm s"
  "max_dd_risky (pay_loan kw pay nb t dd s) = max_dd_risky s"
  "hwm_total (pay_loan kw pay nb t dd s) = hwm_total s"
  "max_dd_total (pay_loan kw pay nb t dd s) = max_dd_total s"
  "rm_limit (pay_loan kw pay nb t dd s) = rm_limit s"
  "rm_bal (pay_loan kw pay nb t dd s) = rm_bal s"
  "rm_ever_used (pay_loan kw pay nb t dd s) = rm_ever_used s"
  unfolding pay_loan_def Let_def split_beta
  by (simp_all add: draw_cash_frame draw_base_frame draw_risky_frame draw_bucket_frame draw_rm_frame draw_bucket_gated_frame draw_bucket_partial_frame draw_rm_partial_frame mark_failed_frame)

lemma rm_open_frame:
  "risky (rm_open kw t dd s) = risky s"
  "hwm (rm_open kw t dd s) = hwm s"
  "max_dd_risky (rm_open kw t dd s) = max_dd_risky s"
  "hwm_total (rm_open kw t dd s) = hwm_total s"
  "max_dd_total (rm_open kw t dd s) = max_dd_total s"
  "rm_ever_used (rm_open kw t dd s) = rm_ever_used s"
  unfolding rm_open_def Let_def split_beta
  by (simp_all add: draw_cash_frame draw_base_frame draw_risky_frame draw_bucket_frame draw_rm_frame draw_bucket_gated_frame draw_bucket_partial_frame draw_rm_partial_frame mark_failed_frame)


section \<open>The kernel raises no exception on a well-formed call\<close>

lemma build_withdrawals_ok:
  "0 < n \<Longrightarrow> \<exists>w. build_withdrawals E n (ages_of kw n) pyf ia ss sst ei eis eie = Inr w \<and> length w = n"
  by (auto simp: build_withdrawals_def ages_of_def Let_def)

lemma safe_targets_ok: "w \<noteq> [] \<Longrightarrow> \<exists>tg. safe_targets w t R c = Inr tg"
  by (simp add: safe_targets_def Let_def)

lemma amort_ok_rate:
  assumes "amort_payment P r n = Inr pay" and "0 < P"
  shows "r \<noteq> 0"
proof
  assume "r = 0"
  with assms show False
    by (simp add: amort_payment_def py_pow_def py_div_def)
qed

lemma scheduled_ok:
  assumes "amort_payment (real_of_int (loan_amount kw)) (loan_real_rate kw) (loan_term_years kw) = Inr pay"
  shows "\<exists>nb. scheduled_loan_bal kw pay t = Inr nb"
proof (cases "has_loan kw")
  case True
  then have "0 < real_of_int (loan_amount kw)" by (simp add: has_loan_def)
  from amort_ok_rate[OF assms this] have "loan_real_rate kw \<noteq> 0" .
  then show ?thesis
    by (simp add: scheduled_loan_bal_def loan_balance_after_k_def py_pow_def py_div_def Let_def)
next
  case False
  then show ?thesis by (simp add: scheduled_loan_bal_def)
qed

lemma year_step_ok:
  assumes "amort_payment (real_of_int (loan_amount kw)) (loan_real_rate kw) (loan_term_years kw) = Inr pay"
    and "w \<noteq> []"
  shows "\<exists>ls'. year_step kw w pay t col ls = Inr ls' \<and> length ls' = min (length col) (length ls)"
proof -
  from scheduled_ok[OF assms(1)] obtain nb where "scheduled_loan_bal kw pay t = Inr nb" by blast
  moreover from safe_targets_ok[OF assms(2)] obtain tg where
    "safe_targets w t (reserve_years kw) (reserve_cash_fraction kw) = Inr tg" by blast
  ultimately show ?thesis by (simp add: year_step_def Let_def)
qed

lemma years_loop_ok:
  assumes "amort_payment (real_of_int (loan_amount kw)) (loan_real_rate kw) (loan_term_years kw) = Inr pay"
    and "w \<noteq> []"
  shows "\<exists>ls. years_loop kw w pay returns n lanes0 = Inr ls \<and> length ls = length lanes0"
proof (induction n)
  case 0
  then show ?case by simp
next
  case (Suc n)
  then obtain ls where ls: "years_loop kw w pay returns n lanes0 = Inr ls" "length ls = length lanes0"
    by blast
  from year_step_ok[OF assms, of n "returns_col returns (length ls) n" ls]
  obtain ls' where "year_step kw w pay n (returns_col returns (length ls) n) ls = Inr ls'"
    "length ls' = min (length (returns_col returns (length ls) n)) (length ls)" by blast
  with ls show ?case by (simp add: returns_col_def)
qed

lemma lanes_after_total:
  assumes "0 < shape1 returns"
    and "amort_payment (real_of_int (loan_amount kw)) (loan_real_rate kw) (loan_term_years kw) = Inr pay"
    and "0 < n_sims kw"
    and "shape0 returns = nat (n_sims kw) \<or> shape0 returns = 1"
  shows "\<exists>lanes. lanes_after kw returns E n = Inr lanes \<and> length lanes = nat (n_sims kw)"
proof -
  from build_withdrawals_ok[OF assms(1)] obtain w where
    w: "build_withdrawals (real_of_int E) (shape1 returns) (ages_of kw (shape1 returns))
          (partial_year_fraction kw) (income_applies_to_actual_spend kw)
          (ss_annual_real kw) (ss_start_age kw) (earned_income_annual_real kw)
          (earned_income_start_age kw) (earned_income_end_age kw) = Inr w"
    and lw: "length w = shape1 returns" by blast
  from lw assms(1) have ne: "w \<noteq> []" by auto
  from safe_targets_ok[OF ne] obtain tg where
    tg: "safe_targets w 0 (reserve_years kw) (reserve_cash_fraction kw) = Inr tg" by blast
  from years_loop_ok[OF assms(2) ne] obtain ls where
    "years_loop kw w pay returns n
       (replicate (nat (n_sims kw)) (init_lane kw (shape1 returns) (fst tg) (snd tg))) = Inr ls"
    "length ls = nat (n_sims kw)" by fastforce
  with assms w tg show ?thesis
    by (cases tg) (auto simp: lanes_after_def Let_def)
qed


lemma lanes_after_InrD:
  assumes "lanes_after kw returns E n = Inr lanes"
  obtains pay w tc tb where
    "amort_payment (real_of_int (loan_amount kw)) (loan_real_rate kw) (loan_term_years kw) = Inr pay"
    "build_withdrawals (real_of_int E) (shape1 returns) (ages_of kw (shape1 returns))
          (partial_year_fraction kw) (income_applies_to_actual_spend kw)
          (ss_annual_real kw) (ss_start_age kw) (earned_income_annual_real kw)
          (earned_income_start_age kw) (earned_income_end_age kw) = Inr w"
    "safe_targets w 0 (reserve_years kw) (reserve_cash_fraction kw) = Inr (tc, tb)"
    "0 < n_sims kw" "0 < shape1 returns"
    "years_loop kw w pay returns n
       (replicate (nat (n_sims kw)) (init_lane kw (shape1 returns) tc tb)) = Inr lanes"
  using assms
  by (auto simp: lanes_after_def Let_def split: if_splits sum.splits prod.splits)

section \<open>A run without a loan\<close>

lemma no_loan_pre:
  assumes "\<not> has_loan kw"
  shows "loan_bucket (fst (lane_pre kw pay new_bal t r s)) = loan_bucket s"
    and "loan_bal (fst (lane_pre kw pay new_bal t r s)) = loan_bal s"
  using assms
  by (simp_all add: lane_pre_def grow_def update_drawdown_def rm_open_def rm_growth_def Let_def)

lemma bucket_gated_zero:
  "loan_bucket s = 0 \<Longrightarrow> loan_bucket (fst (draw_bucket_gated kw dd s rem)) = 0"
  by (simp add: draw_bucket_gated_def Let_def eps_def)

lemma bucket_partial_zero:
  "loan_bucket s = 0 \<Longrightarrow> loan_bucket (fst (draw_bucket_partial kw dd s rem)) = 0"
  by (simp add: draw_bucket_partial_def Let_def)

lemma no_loan_fund:
  "loan_bucket s = 0 \<Longrightarrow> loan_bucket (fund_spending kw dd sp s) = 0"
  unfolding fund_spending_def Let_def split_beta
  by (simp only: bucket_gated_zero bucket_partial_zero draw_cash_frame draw_base_frame
        draw_risky_frame draw_rm_frame draw_rm_partial_frame)

lemma no_loan_post:
  "loan_bucket s = 0 \<Longrightarrow> loan_bucket (lane_post kw w tgts any t dd s) = 0"
  "loan_bal (lane_post kw w tgts any t dd s) = loan_bal s"
  unfolding lane_post_def Let_def
  by (simp_all add: latch_rm_frame repay_rm_frame refill_reserve_frame no_loan_fund
        fund_spending_frame mark_infeasible_frame add_surplus_frame)

text \<open>
  Claim C8. With \<open>loan_amount = 0\<close>, after any number of years of the run every path has
  \<open>loan_bucket = 0\<close> and \<open>loan_bal = 0\<close>, and its \<open>total_net_end\<close> is
  \<open>cash + base_treas + risky\<close>.
\<close>

theorem no_loan_idempotence:
  assumes "loan_amount kw = 0"
    and "lanes_after kw returns E n = Inr lanes"
    and "s \<in> set lanes"
  shows "loan_bucket s = 0 \<and> loan_bal s = 0
         \<and> total_net_end s = cash s + base_treas s + risky s"
proof -
  from assms(1) have nl: "\<not> has_loan kw" by (simp add: has_loan_def)
  let ?P = "\<lambda>s. loan_bucket s = 0 \<and> loan_bal s = 0"
  from assms(2) obtain pay w tc tb where
    loop: "years_loop kw w pay returns n
             (replicate (nat (n_sims kw)) (init_lane kw (shape1 returns) tc tb)) = Inr lanes"
    by (rule lanes_after_InrD)
  have init: "\<forall>s\<in>set (replicate (nat (n_sims kw)) (init_lane kw (shape1 returns) tc tb)). ?P s"
    using nl by (simp add: init_lane_def Let_def)
  have step: "\<And>t r new_bal tgts any s. ?P s \<Longrightarrow> scheduled_loan_bal kw pay t = Inr new_bal \<Longrightarrow>
            ?P (lane_post kw w tgts any t (snd (lane_pre kw pay new_bal t r s))
                 (fst (lane_pre kw pay new_bal t r s)))"
    using nl by (simp add: no_loan_post no_loan_pre)
  from years_loop_invariant[where P = ?P, OF step loop init] assms(3)
  have "?P s" by blast
  then show ?thesis by (simp add: total_net_end_def)
qed

lemma plain_amort:
  "amort_payment (real_of_int (loan_amount kw_plain)) (loan_real_rate kw_plain)
     (loan_term_years kw_plain) = Inr 0"
  by (simp add: kw_plain_def amort_payment_def)

theorem no_loan_idempotence_witness:
  "loan_amount kw_plain = 0
   \<and> (\<exists>lanes. lanes_after kw_plain returns_crash 100 1 = Inr lanes \<and> lanes \<noteq> []
        \<and> (\<forall>s\<in>set lanes. loan_bucket s = 0 \<and> loan_bal s = 0
               \<and> total_net_end s = cash s + base_treas s + risky s))"
proof -
  have la: "loan_amount kw_plain = 0" by (simp add: kw_plain_def)
  have "\<exists>lanes. lanes_after kw_plain returns_crash 100 1 = Inr lanes
          \<and> length lanes = nat (n_sims kw_plain)"
    by (rule lanes_after_total[OF _ plain_amort]) (simp_all add: kw_plain_def returns_crash_def)
  then obtain lanes where l: "lanes_after kw_plain returns_crash 100 1 = Inr lanes"
    and "length lanes = nat (n_sims kw_plain)" by blast
  then have ne: "lanes \<noteq> []" by (auto simp: kw_plain_def)
  from no_loan_idempotence[OF la l] la l ne show ?thesis by blast
qed


section \<open>The mortality weights and the success aggregate\<close>

lemma map2_same: "map2 f (map g xs) (map h xs) = map (\<lambda>x. f (g x) (h x)) xs"
  by (induction xs) simp_all

lemma sum_list_div_const: "sum_list (map (\<lambda>d. d / c) ds) = sum_list ds / (c::real)"
  by (induction ds) (simp_all add: add_divide_distrib)

lemma rows_nonneg: "\<forall>r\<in>set SSA_ROWS. 0 \<le> fst (snd r) \<and> 0 \<le> snd (snd r)"
  by (simp add: SSA_ROWS_def)

lemma rows_length: "length SSA_ROWS = 47"
  by (simp add: SSA_ROWS_def)

lemma rows_l0: "hd (map (\<lambda>r. snd (snd r)) SSA_ROWS) = 88825"
  by (simp add: SSA_ROWS_def)

lemma rows_dx_sum: "0 < sum_list (map (\<lambda>r. snd (snd r) * fst (snd r)) SSA_ROWS)"
  by (simp add: SSA_ROWS_def)

lemma normalise_scaled:
  assumes "c \<noteq> 0"
  shows "map (\<lambda>x. x / sum_list (map (\<lambda>d. d / c) ds)) (map (\<lambda>d. d / c) ds)
           = map (\<lambda>d. d / sum_list ds) (ds :: real list)"
proof -
  have "\<And>d. d / c / (sum_list ds / c) = d / sum_list ds"
    using assms by simp
  then show ?thesis by (simp add: sum_list_div_const)
qed

lemma weights_eq:
  "snd mortality_weights =
     map (\<lambda>r. snd (snd r) * fst (snd r)
               / sum_list (map (\<lambda>r. snd (snd r) * fst (snd r)) SSA_ROWS)) SSA_ROWS"
proof -
  let ?dx = "map (\<lambda>r. snd (snd r) * fst (snd r)) SSA_ROWS"
  have "snd mortality_weights =
          map (\<lambda>x. x / sum_list (map (\<lambda>d. d / 88825) ?dx)) (map (\<lambda>d. d / 88825) ?dx)"
    unfolding mortality_weights_def Let_def
    by (simp only: snd_conv map2_same rows_l0)
  also have "\<dots> = map (\<lambda>d. d / sum_list ?dx) ?dx"
    by (rule normalise_scaled) simp
  finally show ?thesis by (simp add: o_def)
qed

lemma weights_sum: "sum_list (snd mortality_weights) = 1"
proof -
  let ?dx = "map (\<lambda>r. snd (snd r) * fst (snd r)) SSA_ROWS"
  have "snd mortality_weights = map (\<lambda>d. d / sum_list ?dx) ?dx"
    by (simp add: weights_eq o_def)
  then have "sum_list (snd mortality_weights) = sum_list ?dx / sum_list ?dx"
    by (simp only: sum_list_div_const)
  with rows_dx_sum show ?thesis by simp
qed

lemma weights_nonneg: "\<forall>p\<in>set (snd mortality_weights). 0 \<le> p"
  using rows_nonneg rows_dx_sum by (auto simp: weights_eq intro!: divide_nonneg_nonneg mult_nonneg_nonneg less_imp_le)

lemma weights_length: "length (snd mortality_weights) = 47" "length (fst mortality_weights) = 47"
  by (simp_all add: weights_eq rows_length mortality_weights_def Let_def)

lemma mean_bool_range: "0 \<le> mean_bool bs \<and> mean_bool bs \<le> 1"
proof -
  have "length (filter (\<lambda>b. b) bs) \<le> length bs" by simp
  then have "real (length (filter (\<lambda>b. b) bs)) \<le> real (length bs)" by linarith
  then show ?thesis
    by (cases "bs = []") (simp_all add: mean_bool_def divide_le_eq_1)
qed

lemma age_to_t_bound_aux:
  "(\<forall>a t. m a = Some t \<longrightarrow> t < n) \<Longrightarrow> \<forall>t\<in>set ts. t < n \<Longrightarrow>
   fold (\<lambda>t m. m(ages ! t \<mapsto> t)) ts m a = Some t \<Longrightarrow> t < n"
proof (induction ts arbitrary: m)
  case Nil
  then show ?case by simp
next
  case (Cons x ts)
  have "\<forall>a t. (m(ages ! x \<mapsto> x)) a = Some t \<longrightarrow> t < n"
    using Cons.prems(1,2) by (auto split: if_splits)
  moreover have "\<forall>t\<in>set ts. t < n" using Cons.prems(2) by simp
  moreover have "fold (\<lambda>t m. m(ages ! t \<mapsto> t)) ts (m(ages ! x \<mapsto> x)) a = Some t"
    using Cons.prems(3) by (simp only: fold_Cons o_apply)
  ultimately show ?case by (rule Cons.IH)
qed

lemma age_to_t_bound: "age_to_t ages a = Some t \<Longrightarrow> t < length ages"
  unfolding age_to_t_def
  by (rule age_to_t_bound_aux[where m = Map.empty and ts = "[0..<length ages]"]) auto

lemma weighted_sum_bounds:
  "length ps = length rs \<Longrightarrow> \<forall>p\<in>set ps. 0 \<le> (p::real) \<Longrightarrow> \<forall>r\<in>set rs. 0 \<le> r \<and> r \<le> 1 \<Longrightarrow>
   0 \<le> sum_list (map2 (\<lambda>p r. p * (1 - r)) ps rs)
   \<and> sum_list (map2 (\<lambda>p r. p * (1 - r)) ps rs) \<le> sum_list ps"
proof (induction ps rs rule: list_induct2)
  case Nil
  then show ?case by simp
next
  case (Cons p ps r rs)
  then have IH: "0 \<le> sum_list (map2 (\<lambda>p r. p * (1 - r)) ps rs)
     \<and> sum_list (map2 (\<lambda>p r. p * (1 - r)) ps rs) \<le> sum_list ps" by simp
  from Cons.prems have p: "0 \<le> p" and r: "0 \<le> r" "r \<le> 1" by simp_all
  have "0 \<le> p * (1 - r)" using p r by simp
  moreover have "p * (1 - r) \<le> p" using p r by (simp add: mult_left_le)
  ultimately show ?case using IH by simp
qed

lemma ruin_by_age_range:
  assumes "ages_model \<noteq> []"
  shows "\<forall>r\<in>set (ruin_by_age fidx ages_model). 0 \<le> r \<and> r \<le> 1"
proof
  fix r assume "r \<in> set (ruin_by_age fidx ages_model)"
  then obtain a where r: "r = ruin_by_t fidx (length ages_model) !
        (case age_to_t ages_model a of None \<Rightarrow> length ages_model - 1 | Some t \<Rightarrow> t)"
    by (auto simp: ruin_by_age_def Let_def)
  have "(case age_to_t ages_model a of None \<Rightarrow> length ages_model - 1 | Some t \<Rightarrow> t)
          < length ages_model"
    using assms by (auto split: option.splits dest: age_to_t_bound)
  then show "0 \<le> r \<and> r \<le> 1"
    unfolding r by (simp add: ruin_by_t_def mean_bool_range)
qed

lemma mean_ge_eq:
  assumes "\<forall>f\<in>set fidx. f \<le> (n::int)"
  shows "mean_bool (map (\<lambda>f. f \<ge> n) fidx) = mean_bool (map (\<lambda>f. f = n) fidx)"
proof -
  have "map (\<lambda>f. f \<ge> n) fidx = map (\<lambda>f. f = n) fidx"
    using assms by (induction fidx) auto
  then show ?thesis by (rule arg_cong)
qed

text \<open>
  Claim C7. \<open>mortality_weights\<close> returns, over the 47 rows of the life table, the vector
  \<open>dx / \<Sum> dx\<close> with \<open>dx = lx qx\<close>, and it sums to 1. For a \<open>fail_idx\<close> array with
  entries in \<open>[0, horizon]\<close>, \<open>death_weighted_success\<close> returns
  \<open>p99 = mean(fail_idx \<ge> horizon) = mean(fail_idx = horizon)\<close> and a \<open>p_dw\<close> in \<open>[0, 1]\<close>.
  The means are taken over at least one path and the horizon has at least one year (on an
  empty array numpy has no mean to return, and on an empty horizon the lookup of the last
  year raises).
\<close>

theorem mortality_aggregation:
  "length (snd mortality_weights) = 47
   \<and> snd mortality_weights =
       map (\<lambda>(age, qx, lx). lx * qx / (\<Sum>(age, qx, lx)\<leftarrow>SSA_ROWS. lx * qx)) SSA_ROWS
   \<and> sum_list (snd mortality_weights) = 1
   \<and> (fidx \<noteq> [] \<and> ages_model \<noteq> []
        \<and> (\<forall>f\<in>set fidx. 0 \<le> f \<and> f \<le> int (length ages_model))
      \<longrightarrow> (\<exists>p_dw p99. death_weighted_success fidx ages_model = Inr (p_dw, p99)
            \<and> p99 = mean_bool (map (\<lambda>f. f \<ge> int (length ages_model)) fidx)
            \<and> p99 = mean_bool (map (\<lambda>f. f = int (length ages_model)) fidx)
            \<and> 0 \<le> p_dw \<and> p_dw \<le> 1))"
proof (intro conjI impI)
  show "length (snd mortality_weights) = 47" by (rule weights_length)
  show "snd mortality_weights =
       map (\<lambda>(age, qx, lx). lx * qx / (\<Sum>(age, qx, lx)\<leftarrow>SSA_ROWS. lx * qx)) SSA_ROWS"
  proof -
    have "(\<lambda>(age, qx, lx). lx * qx) = (\<lambda>r :: int \<times> real \<times> real. snd (snd r) * fst (snd r))"
      by (simp add: fun_eq_iff)
    moreover have "(\<lambda>(age, qx, lx). lx * qx / c) = (\<lambda>r :: int \<times> real \<times> real. snd (snd r) * fst (snd r) / c)"
      for c :: real by (simp add: fun_eq_iff)
    ultimately show ?thesis by (simp only: weights_eq)
  qed
  show "sum_list (snd mortality_weights) = 1" by (rule weights_sum)
next
  assume a: "fidx \<noteq> [] \<and> ages_model \<noteq> []
        \<and> (\<forall>f\<in>set fidx. 0 \<le> f \<and> f \<le> int (length ages_model))"
  let ?pdw = "sum_list (map2 (\<lambda>p r. p * (1 - r)) (snd mortality_weights)
                 (ruin_by_age fidx ages_model))"
  let ?p99 = "mean_bool (map (\<lambda>f. f \<ge> int (length ages_model)) fidx)"
  have eq: "death_weighted_success fidx ages_model = Inr (?pdw, ?p99)"
    using a by (simp add: death_weighted_success_def Let_def)
  have len: "length (snd mortality_weights) = length (ruin_by_age fidx ages_model)"
    by (simp add: weights_length ruin_by_age_def Let_def)
  from a have ne: "ages_model \<noteq> []" by simp
  from weighted_sum_bounds[OF len weights_nonneg ruin_by_age_range[OF ne]]
  have "0 \<le> ?pdw \<and> ?pdw \<le> 1" by (simp add: weights_sum)
  moreover from a have "?p99 = mean_bool (map (\<lambda>f. f = int (length ages_model)) fidx)"
    by (intro mean_ge_eq) simp
  ultimately show "\<exists>p_dw p99. death_weighted_success fidx ages_model = Inr (p_dw, p99)
            \<and> p99 = mean_bool (map (\<lambda>f. f \<ge> int (length ages_model)) fidx)
            \<and> p99 = mean_bool (map (\<lambda>f. f = int (length ages_model)) fidx)
            \<and> 0 \<le> p_dw \<and> p_dw \<le> 1"
    using eq by blast
qed

theorem mortality_aggregation_witness:
  "[0, 2] \<noteq> ([] :: int list) \<and> [98, 99] \<noteq> ([] :: int list)
   \<and> (0 :: int) \<le> 0 \<and> (0 :: int) \<le> int (length [98, 99 :: int])
   \<and> (0 :: int) \<le> 2 \<and> (2 :: int) \<le> int (length [98, 99 :: int])
   \<and> (\<exists>p_dw p99. death_weighted_success [0, 2] [98, 99] = Inr (p_dw, p99)
        \<and> p99 = mean_bool (map (\<lambda>f. f \<ge> int (length [98, 99 :: int])) [0, 2])
        \<and> p99 = mean_bool (map (\<lambda>f. f = int (length [98, 99 :: int])) [0, 2])
        \<and> 0 \<le> p_dw \<and> p_dw \<le> 1)"
  using mortality_aggregation [of "[0, 2]" "[98, 99]"] by simp


section \<open>Running the kernel on one path\<close>

lemma year_step_one:
  assumes "scheduled_loan_bal kw pay t = Inr nb"
    and "safe_targets w t (reserve_years kw) (reserve_cash_fraction kw) = Inr tg"
    and "lane_pre kw pay nb t r s = (s1, dd)"
  shows "year_step kw w pay t [r] [s] = Inr [lane_post kw w tg (surplus_of kw w t dd > 0) t dd s1]"
  by (simp add: year_step_def assms)

lemma lanes_after_one:
  assumes "shape1 returns = ny" "0 < ny" "n_sims kw = 1" "shape0 returns = 1"
    and "amort_payment (real_of_int (loan_amount kw)) (loan_real_rate kw) (loan_term_years kw) = Inr pay"
    and "build_withdrawals (real_of_int E) ny (ages_of kw ny)
          (partial_year_fraction kw) (income_applies_to_actual_spend kw)
          (ss_annual_real kw) (ss_start_age kw) (earned_income_annual_real kw)
          (earned_income_start_age kw) (earned_income_end_age kw) = Inr w"
    and "safe_targets w 0 (reserve_years kw) (reserve_cash_fraction kw) = Inr (tc, tb)"
  shows "lanes_after kw returns E n = years_loop kw w pay returns n [init_lane kw ny tc tb]"
  using assms by (simp add: lanes_after_def Let_def)

lemma years_loop_one:
  assumes "years_loop kw w pay returns n lanes0 = Inr [s]" and "shape0 returns = 1"
  shows "years_loop kw w pay returns (Suc n) lanes0 = year_step kw w pay n [entry returns 0 n] [s]"
  using assms by (simp add: returns_col_def)

section \<open>A failed path that keeps paying its loan\<close>

lemma kw_loan_sel [simp]:
  "n_sims kw_loan = 1" "start_portfolio kw_loan = 800" "start_age kw_loan = 98"
  "partial_year_fraction kw_loan = 1" "reserve_years kw_loan = 0"
  "reserve_cash_fraction kw_loan = 1/2" "safe_real_return kw_loan = 0"
  "floor_annual_real kw_loan = 4000" "income_applies_to_actual_spend kw_loan = True"
  "ss_annual_real kw_loan = 0" "ss_start_age kw_loan = 63" "earned_income_annual_real kw_loan = 0"
  "earned_income_start_age kw_loan = 54" "earned_income_end_age kw_loan = 62"
  "surplus_allocation kw_loan = ''reserve_first''"
  "dd1 kw_loan = 1/8" "dd2 kw_loan = 1/4" "cut1 kw_loan = 1/2" "cut2 kw_loan = 1"
  "baseline_e_for_flex kw_loan = 0" "baseline_flex_pre kw_loan = 0"
  "baseline_net_post_ss kw_loan = 0" "baseline_flex_post kw_loan = 0" "rm_open_age kw_loan = 200"
  "home_value_real kw_loan = 0" "rm_plf_at_open kw_loan = 0"
  "rm_limit_real_growth kw_loan = 0" "rm_bal_real_rate kw_loan = 0" "rm_partial_cover kw_loan = 1/2"
  "rm_repay_rate kw_loan = 1/8" "payoff_dd_threshold kw_loan = 1/16" "loan_amount kw_loan = 100"
  "loan_real_rate kw_loan = 1" "loan_term_years kw_loan = 1" "loan_bucket_real_return kw_loan = 0"
  "loan_bucket_use_dd kw_loan = 1/8" "loan_bucket_partial_cover kw_loan = 1/2"
  by (simp_all add: kw_loan_def)

lemmas pre_defs = lane_pre_def grow_def update_drawdown_def pay_loan_def rm_open_def
  rm_growth_def rm_open_t_def rm_limit_open_def has_loan_def draw_cash_def draw_base_def
  draw_risky_def draw_bucket_def draw_rm_def draw_bucket_gated_def peek_risky_def
  mark_failed_def take_from_def eps_def

lemmas post_defs = desired_spend_def max_feasible_def income_scalar_def asset_desired_def
  floor_need_assets_def surplus_of_def add_surplus_def mark_infeasible_def spend_assets_def
  fund_spending_def refill_reserve_def repay_rm_def latch_rm_def compute_cuts_def
  pre_flex_pct_def post_flex_pct_def floor_assets_def age_at_def draw_cash_def draw_base_def
  draw_risky_def draw_rm_def draw_bucket_gated_def draw_bucket_partial_def draw_rm_partial_def
  mark_failed_def take_from_def eps_def

lemma kw_loan_amort: "amort_payment (real_of_int (loan_amount kw_loan)) (loan_real_rate kw_loan)
     (loan_term_years kw_loan) = Inr 200"
  by (simp add: amort_payment_def py_pow_def py_div_def power_int_minus)

lemma kw_loan_w: "build_withdrawals (real_of_int 0) 2 (ages_of kw_loan 2)
          (partial_year_fraction kw_loan) (income_applies_to_actual_spend kw_loan)
          (ss_annual_real kw_loan) (ss_start_age kw_loan) (earned_income_annual_real kw_loan)
          (earned_income_start_age kw_loan) (earned_income_end_age kw_loan) = Inr [0, 0]"
  by (simp add: build_withdrawals_def upt_rec)

lemma kw_loan_tg: "safe_targets [0, 0] t 0 (1/2) = Inr (0, 0)"
  by (cases t) (simp_all add: safe_targets_def Let_def)

lemma kw_loan_tg': "safe_targets [0, 0] t (reserve_years kw_loan) (reserve_cash_fraction kw_loan) = Inr (0, 0)"
  by (simp add: kw_loan_tg)

lemma kw_loan_sched: "scheduled_loan_bal kw_loan 200 0 = Inr 0" "scheduled_loan_bal kw_loan 200 (Suc 0) = Inr 0"
  by (simp_all add: scheduled_loan_bal_def has_loan_def rm_open_t_def loan_balance_after_k_def
        py_pow_def py_div_def Let_def)

lemma kw_loan_pre0: "lane_pre kw_loan 200 0 0 0
   \<lparr> cash = 0, base_treas = 0, risky = 800, loan_bucket = 100, loan_bal = 100, hwm = 800,
     max_dd_risky = 0, hwm_total = 800, max_dd_total = 0, rm_limit = 0, rm_bal = 0,
     rm_ever_used = False, failed = False, fail_idx = 2 \<rparr>
  = (\<lparr> cash = 0, base_treas = 0, risky = 600, loan_bucket = 100, loan_bal = 0, hwm = 800,
     max_dd_risky = 0, hwm_total = 800, max_dd_total = 0, rm_limit = 0, rm_bal = 0,
     rm_ever_used = False, failed = False, fail_idx = 2 \<rparr>, 0)"
  unfolding lane_pre_def Let_def
  by (simp add: pre_defs Let_def)


lemma kw_loan_init: "init_lane kw_loan 2 0 0 =
   \<lparr> cash = 0, base_treas = 0, risky = 800, loan_bucket = 100, loan_bal = 100, hwm = 800,
     max_dd_risky = 0, hwm_total = 800, max_dd_total = 0, rm_limit = 0, rm_bal = 0,
     rm_ever_used = False, failed = False, fail_idx = 2 \<rparr>"
  by (simp add: init_lane_def has_loan_def Let_def)

lemma kw_loan_post0: "lane_post kw_loan [0, 0] (0, 0) b 0 0
   \<lparr> cash = 0, base_treas = 0, risky = 600, loan_bucket = 100, loan_bal = 0, hwm = 800,
     max_dd_risky = 0, hwm_total = 800, max_dd_total = 0, rm_limit = 0, rm_bal = 0,
     rm_ever_used = False, failed = False, fail_idx = 2 \<rparr>
  = \<lparr> cash = 0, base_treas = 0, risky = 600, loan_bucket = 100, loan_bal = 0, hwm = 800,
     max_dd_risky = 0, hwm_total = 800, max_dd_total = 0, rm_limit = 0, rm_bal = 0,
     rm_ever_used = False, failed = True, fail_idx = 0 \<rparr>"
  unfolding lane_post_def fund_spending_def Let_def split_beta
  by (simp add: post_defs Let_def split_beta)

lemma kw_loan_pre1: "lane_pre kw_loan 200 0 (Suc 0) 0
   \<lparr> cash = 0, base_treas = 0, risky = 600, loan_bucket = 100, loan_bal = 0, hwm = 800,
     max_dd_risky = 0, hwm_total = 800, max_dd_total = 0, rm_limit = 0, rm_bal = 0,
     rm_ever_used = False, failed = True, fail_idx = 0 \<rparr>
  = (\<lparr> cash = 0, base_treas = 0, risky = 400, loan_bucket = 100, loan_bal = 0, hwm = 800,
     max_dd_risky = 1/4, hwm_total = 800, max_dd_total = 1/8, rm_limit = 0, rm_bal = 0,
     rm_ever_used = False, failed = True, fail_idx = 0 \<rparr>, 1/4)"
  unfolding lane_pre_def Let_def
  by (simp add: pre_defs Let_def)

lemma kw_loan_post1: "lane_post kw_loan [0, 0] (0, 0) b (Suc 0) (1/4)
   \<lparr> cash = 0, base_treas = 0, risky = 400, loan_bucket = 100, loan_bal = 0, hwm = 800,
     max_dd_risky = 1/4, hwm_total = 800, max_dd_total = 1/8, rm_limit = 0, rm_bal = 0,
     rm_ever_used = False, failed = True, fail_idx = 0 \<rparr>
  = \<lparr> cash = 0, base_treas = 0, risky = 400, loan_bucket = 100, loan_bal = 0, hwm = 800,
     max_dd_risky = 1/4, hwm_total = 800, max_dd_total = 1/8, rm_limit = 0, rm_bal = 0,
     rm_ever_used = False, failed = True, fail_idx = 0 \<rparr>"
  unfolding lane_post_def fund_spending_def Let_def split_beta
  by (simp add: post_defs Let_def split_beta)

lemma kw_loan_run0: "lanes_after kw_loan returns_flat2 0 0 = Inr [init_lane kw_loan 2 0 0]"
  by (subst lanes_after_one[OF _ _ _ _ kw_loan_amort kw_loan_w kw_loan_tg'])
     (simp_all add: returns_flat2_def)

lemma kw_loan_after: "lanes_after kw_loan returns_flat2 0 n
   = years_loop kw_loan [0, 0] 200 returns_flat2 n [init_lane kw_loan 2 0 0]"
  by (rule lanes_after_one[OF _ _ _ _ kw_loan_amort kw_loan_w kw_loan_tg']) (simp_all add: returns_flat2_def)

lemma kw_loan_run1: "lanes_after kw_loan returns_flat2 0 (Suc 0) =
  Inr [\<lparr> cash = 0, base_treas = 0, risky = 600, loan_bucket = 100, loan_bal = 0, hwm = 800,
     max_dd_risky = 0, hwm_total = 800, max_dd_total = 0, rm_limit = 0, rm_bal = 0,
     rm_ever_used = False, failed = True, fail_idx = 0 \<rparr>]"
proof -
  have "years_loop kw_loan [0, 0] 200 returns_flat2 0 [init_lane kw_loan 2 0 0]
          = Inr [init_lane kw_loan 2 0 0]" by simp
  from years_loop_one[OF this] show ?thesis
    unfolding kw_loan_after
    by (simp add: returns_flat2_def kw_loan_init year_step_one[OF kw_loan_sched(1) kw_loan_tg' kw_loan_pre0] kw_loan_post0)
qed

lemma kw_loan_run2: "lanes_after kw_loan returns_flat2 0 (Suc (Suc 0)) =
  Inr [\<lparr> cash = 0, base_treas = 0, risky = 400, loan_bucket = 100, loan_bal = 0, hwm = 800,
     max_dd_risky = 1/4, hwm_total = 800, max_dd_total = 1/8, rm_limit = 0, rm_bal = 0,
     rm_ever_used = False, failed = True, fail_idx = 0 \<rparr>]"
proof -
  note r1 = kw_loan_run1[unfolded kw_loan_after]
  from years_loop_one[OF r1] show ?thesis
    unfolding kw_loan_after
    by (simp add: returns_flat2_def year_step_one[OF kw_loan_sched(2) kw_loan_tg' kw_loan_pre1] kw_loan_post1)
qed


section \<open>What a failed path still does\<close>

lemma mark_failed_failed: "failed s \<Longrightarrow> mark_failed t c s = s"
  by (simp add: mark_failed_def)

lemma zero_draws:
  "draw_cash s 0 = (s, 0)" "draw_base s 0 = (s, 0)" "draw_risky s 0 = (s, 0)" "draw_rm s 0 = (s, 0)"
  by (simp_all add: draw_cash_def draw_base_def draw_risky_def draw_rm_def take_from_def Let_def)

lemma failed_draws:
  assumes "failed s"
  shows "draw_bucket_partial kw dd s rem = (s, rem)" "draw_rm_partial kw dd s rem = (s, rem)"
    "draw_bucket_gated kw dd s rem = (s, rem)"
  using assms
  by (simp_all add: draw_bucket_partial_def draw_rm_partial_def draw_bucket_gated_def Let_def)

lemma failed_fund: "failed s \<Longrightarrow> fund_spending kw dd 0 s = s"
  by (simp add: fund_spending_def zero_draws failed_draws)

lemma failed_refill: "failed s \<Longrightarrow> refill_reserve kw tgts dd s = s"
  by (simp add: refill_reserve_def Let_def split_beta)

lemma failed_repay: "failed s \<Longrightarrow> repay_rm kw dd s = s"
  by (simp add: repay_rm_def Let_def)

lemma failed_add_surplus: "failed (add_surplus kw tgts sp s) = failed s"
  by (rule add_surplus_frame)

lemma failed_pre:
  assumes "failed s"
  shows "failed (fst (lane_pre kw pay nb t r s))"
    and "fail_idx (fst (lane_pre kw pay nb t r s)) = fail_idx s"
proof -
  have g: "failed (fst (update_drawdown (grow kw r s)))"
      "fail_idx (fst (update_drawdown (grow kw r s))) = fail_idx s"
    using assms by (simp_all add: update_drawdown_frame grow_frame)
  have p: "failed x \<Longrightarrow> failed (pay_loan kw pay nb t dd x) \<and> fail_idx (pay_loan kw pay nb t dd x) = fail_idx x"
    for x dd
    unfolding pay_loan_def Let_def split_beta
    by (simp add: mark_failed_def draw_cash_frame draw_base_frame draw_risky_frame
          draw_bucket_gated_frame)
  have o: "failed x \<Longrightarrow> failed (rm_open kw t dd x) \<and> fail_idx (rm_open kw t dd x) = fail_idx x"
    for x dd
    unfolding rm_open_def Let_def split_beta
    by (simp add: mark_failed_def draw_cash_frame draw_base_frame draw_bucket_frame draw_rm_frame)
  show "failed (fst (lane_pre kw pay nb t r s))"
    and "fail_idx (fst (lane_pre kw pay nb t r s)) = fail_idx s"
    unfolding lane_pre_def Let_def split_beta
    using g p o by (simp_all add: rm_growth_frame)
qed

text \<open>
  Claim C2, as amended. On a path that has failed, every later year leaves \<open>failed\<close> and
  \<open>fail_idx\<close> as they are, spends nothing (\<open>spend_assets = 0\<close>), and its funding order,
  reserve refill and reverse-mortgage repayment change nothing: the second half of the year
  only adds an income surplus, if there is one, and latches \<open>rm_ever_used\<close>. The loan
  payment leaves the loan bucket of the path alone. Nothing is said of the other draws of
  the loan payment and of the loan payoff, which are not masked by \<open>failed\<close>.
\<close>

theorem failed_path_inert:
  assumes "failed s"
  shows "failed (fst (lane_pre kw pay new_bal t ret s))
       \<and> fail_idx (fst (lane_pre kw pay new_bal t ret s)) = fail_idx s
       \<and> loan_bucket (pay_loan kw pay new_bal t drawdown s) = loan_bucket s
       \<and> spend_assets kw w t drawdown mf (mark_infeasible kw t mf s) = 0
       \<and> fund_spending kw drawdown 0 s = s
       \<and> refill_reserve kw tgts drawdown s = s
       \<and> repay_rm kw drawdown s = s
       \<and> lane_post kw w tgts any_surplus t drawdown s
           = latch_rm (if income_scalar kw t > 0 \<and> any_surplus
                       then add_surplus kw tgts (surplus_of kw w t drawdown) s else s)"
proof -
  let ?s1 = "if income_scalar kw t > 0 \<and> any_surplus
             then add_surplus kw tgts (surplus_of kw w t drawdown) s else s"
  have f1: "failed ?s1" using assms by (simp add: add_surplus_frame)
  have m: "mark_infeasible kw t x ?s1 = ?s1" for x
    unfolding mark_infeasible_def by (rule mark_failed_failed[OF f1])
  have sp: "spend_assets kw w t drawdown x ?s1 = 0" for x
    using f1 by (simp add: spend_assets_def)
  have "lane_post kw w tgts any_surplus t drawdown s = latch_rm ?s1"
    unfolding lane_post_def Let_def
    by (simp only: m sp failed_fund[OF f1] failed_refill[OF f1] failed_repay[OF f1])
  moreover have "spend_assets kw w t drawdown mf (mark_infeasible kw t mf s) = 0"
    using assms by (simp add: spend_assets_def mark_infeasible_def mark_failed_failed)
  moreover have "loan_bucket (pay_loan kw pay new_bal t drawdown s) = loan_bucket s"
    unfolding pay_loan_def Let_def split_beta
    using assms
    by (simp add: mark_failed_frame failed_draws draw_cash_frame draw_base_frame draw_risky_frame)
  ultimately show ?thesis
    using assms failed_pre[OF assms] failed_fund failed_refill failed_repay by simp
qed


theorem failed_path_inert_witness:
  "failed lane_failed
   \<and> (failed (fst (lane_pre kw_loan 200 0 1 0 lane_failed))
       \<and> fail_idx (fst (lane_pre kw_loan 200 0 1 0 lane_failed)) = fail_idx lane_failed
       \<and> loan_bucket (pay_loan kw_loan 200 0 1 (1/4) lane_failed) = loan_bucket lane_failed
       \<and> spend_assets kw_loan [0, 0] 1 (1/4) 500 (mark_infeasible kw_loan 1 500 lane_failed) = 0
       \<and> fund_spending kw_loan (1/4) 0 lane_failed = lane_failed
       \<and> refill_reserve kw_loan (0, 0) (1/4) lane_failed = lane_failed
       \<and> repay_rm kw_loan (1/4) lane_failed = lane_failed
       \<and> lane_post kw_loan [0, 0] (0, 0) False 1 (1/4) lane_failed
           = latch_rm (if income_scalar kw_loan 1 > 0 \<and> False
                       then add_surplus kw_loan (0, 0) (surplus_of kw_loan [0, 0] 1 (1/4)) lane_failed
                       else lane_failed))"
proof -
  have f: "failed lane_failed" by (simp add: lane_failed_def)
  show ?thesis by (rule conjI[OF f failed_path_inert[OF f]])
qed

text \<open>
  Claim C2 as stated fails: the path of \<open>kw_loan\<close> fails in year 0 with 600 in the risky
  asset, and the loan payment of year 1 takes 200 of it.
\<close>

theorem failed_path_pays_loan_counterexample:
  "lanes_after kw_loan returns_flat2 0 1 = Inr [lane_failed]
   \<and> failed lane_failed \<and> fail_idx lane_failed = 0 \<and> risky lane_failed = 600
   \<and> lanes_after kw_loan returns_flat2 0 2 =
       Inr [\<lparr> cash = 0, base_treas = 0, risky = 400, loan_bucket = 100, loan_bal = 0,
              hwm = 800, max_dd_risky = 1/4, hwm_total = 800, max_dd_total = 1/8,
              rm_limit = 0, rm_bal = 0, rm_ever_used = False, failed = True, fail_idx = 0 \<rparr>]"
  using kw_loan_run1 kw_loan_run2 by (simp add: lane_failed_def numeral_2_eq_2)


section \<open>Two spending levels on a crashing path\<close>

text \<open>
  The path of \<open>kw_plain\<close> with the return \<open>-3/4\<close>, at \<open>E = 0\<close> and at \<open>E = 100\<close>. At
  \<open>E = 0\<close> the reserve targets are 0, the whole portfolio is in the risky asset and the 25
  left after the crash cannot fund the floor of 50. At \<open>E = 100\<close> the reserve holds the
  whole portfolio, the crash does not touch it, and the year is funded.
\<close>

lemma kw_plain_sel [simp]:
  "n_sims kw_plain = 1" "start_portfolio kw_plain = 100" "start_age kw_plain = 99"
  "partial_year_fraction kw_plain = 1" "reserve_years kw_plain = 1"
  "reserve_cash_fraction kw_plain = 1/2" "safe_real_return kw_plain = 0"
  "floor_annual_real kw_plain = 50" "income_applies_to_actual_spend kw_plain = True"
  "ss_annual_real kw_plain = 0" "ss_start_age kw_plain = 63" "earned_income_annual_real kw_plain = 0"
  "earned_income_start_age kw_plain = 54" "earned_income_end_age kw_plain = 62"
  "surplus_allocation kw_plain = ''reserve_first''"
  "dd1 kw_plain = 1/8" "dd2 kw_plain = 1/4" "cut1 kw_plain = 1/2" "cut2 kw_plain = 1"
  "baseline_e_for_flex kw_plain = 0" "baseline_flex_pre kw_plain = 0"
  "baseline_net_post_ss kw_plain = 0" "baseline_flex_post kw_plain = 0" "rm_open_age kw_plain = 200"
  "home_value_real kw_plain = 0" "rm_plf_at_open kw_plain = 0"
  "rm_limit_real_growth kw_plain = 0" "rm_bal_real_rate kw_plain = 0" "rm_partial_cover kw_plain = 1/2"
  "rm_repay_rate kw_plain = 1/8" "payoff_dd_threshold kw_plain = 1/16" "loan_amount kw_plain = 0"
  "loan_real_rate kw_plain = 1/32" "loan_term_years kw_plain = 30" "loan_bucket_real_return kw_plain = 0"
  "loan_bucket_use_dd kw_plain = 1/8" "loan_bucket_partial_cover kw_plain = 1/2"
  by (simp_all add: kw_plain_def)

lemma plain_sched: "scheduled_loan_bal kw_plain 0 t = Inr 0"
  by (simp add: scheduled_loan_bal_def has_loan_def)

lemma plain_w0: "build_withdrawals (real_of_int 0) 1 (ages_of kw_plain 1)
          (partial_year_fraction kw_plain) (income_applies_to_actual_spend kw_plain)
          (ss_annual_real kw_plain) (ss_start_age kw_plain) (earned_income_annual_real kw_plain)
          (earned_income_start_age kw_plain) (earned_income_end_age kw_plain) = Inr [0]"
  by (simp add: build_withdrawals_def)

lemma plain_tg0: "safe_targets [0] t (reserve_years kw_plain) (reserve_cash_fraction kw_plain) = Inr (0, 0)"
  by (simp add: safe_targets_def Let_def)

lemma plain_init0: "init_lane kw_plain (Suc 0) 0 0 =
   \<lparr> cash = 0, base_treas = 0, risky = 100, loan_bucket = 0, loan_bal = 0, hwm = 100,
     max_dd_risky = 0, hwm_total = 100, max_dd_total = 0, rm_limit = 0, rm_bal = 0,
     rm_ever_used = False, failed = False, fail_idx = 1 \<rparr>"
  by (simp add: init_lane_def has_loan_def Let_def)

lemma plain_pre0: "lane_pre kw_plain 0 0 0 (- (3/4))
   \<lparr> cash = 0, base_treas = 0, risky = 100, loan_bucket = 0, loan_bal = 0, hwm = 100,
     max_dd_risky = 0, hwm_total = 100, max_dd_total = 0, rm_limit = 0, rm_bal = 0,
     rm_ever_used = False, failed = False, fail_idx = 1 \<rparr>
  = (\<lparr> cash = 0, base_treas = 0, risky = 25, loan_bucket = 0, loan_bal = 0, hwm = 100,
     max_dd_risky = 3/4, hwm_total = 100, max_dd_total = 3/4, rm_limit = 0, rm_bal = 0,
     rm_ever_used = False, failed = False, fail_idx = 1 \<rparr>, 3/4)"
  unfolding lane_pre_def Let_def
  by (simp add: pre_defs Let_def)

lemma plain_post0: "lane_post kw_plain [0] (0, 0) b 0 (3/4)
   \<lparr> cash = 0, base_treas = 0, risky = 25, loan_bucket = 0, loan_bal = 0, hwm = 100,
     max_dd_risky = 3/4, hwm_total = 100, max_dd_total = 3/4, rm_limit = 0, rm_bal = 0,
     rm_ever_used = False, failed = False, fail_idx = 1 \<rparr>
  = \<lparr> cash = 0, base_treas = 0, risky = 25, loan_bucket = 0, loan_bal = 0, hwm = 100,
     max_dd_risky = 3/4, hwm_total = 100, max_dd_total = 3/4, rm_limit = 0, rm_bal = 0,
     rm_ever_used = False, failed = True, fail_idx = 0 \<rparr>"
  unfolding lane_post_def fund_spending_def Let_def split_beta
  by (simp add: post_defs Let_def split_beta)

lemma plain_run0: "lanes_after kw_plain returns_crash 0 (Suc 0) =
  Inr [\<lparr> cash = 0, base_treas = 0, risky = 25, loan_bucket = 0, loan_bal = 0, hwm = 100,
     max_dd_risky = 3/4, hwm_total = 100, max_dd_total = 3/4, rm_limit = 0, rm_bal = 0,
     rm_ever_used = False, failed = True, fail_idx = 0 \<rparr>]"
proof -
  have a: "lanes_after kw_plain returns_crash 0 n
     = years_loop kw_plain [0] 0 returns_crash n [init_lane kw_plain 1 0 0]" for n
    by (rule lanes_after_one[OF _ _ _ _ plain_amort plain_w0 plain_tg0])
       (simp_all add: returns_crash_def)
  have "years_loop kw_plain [0] 0 returns_crash 0 [init_lane kw_plain 1 0 0]
          = Inr [init_lane kw_plain 1 0 0]" by simp
  from years_loop_one[OF this] show ?thesis
    unfolding a
    by (simp add: returns_crash_def plain_init0 year_step_one[OF plain_sched plain_tg0 plain_pre0]
          plain_post0)
qed

lemma plain_w1: "build_withdrawals (real_of_int 100) 1 (ages_of kw_plain 1)
          (partial_year_fraction kw_plain) (income_applies_to_actual_spend kw_plain)
          (ss_annual_real kw_plain) (ss_start_age kw_plain) (earned_income_annual_real kw_plain)
          (earned_income_start_age kw_plain) (earned_income_end_age kw_plain) = Inr [100]"
  by (simp add: build_withdrawals_def)

lemma plain_tg1: "safe_targets [100] t (reserve_years kw_plain) (reserve_cash_fraction kw_plain) = Inr (50, 50)"
  by (simp add: safe_targets_def Let_def)

lemma plain_init1: "init_lane kw_plain (Suc 0) 50 50 =
   \<lparr> cash = 50, base_treas = 50, risky = 0, loan_bucket = 0, loan_bal = 0, hwm = 0,
     max_dd_risky = 0, hwm_total = 100, max_dd_total = 0, rm_limit = 0, rm_bal = 0,
     rm_ever_used = False, failed = False, fail_idx = 1 \<rparr>"
  by (simp add: init_lane_def has_loan_def Let_def)

lemma plain_pre1: "lane_pre kw_plain 0 0 0 (- (3/4))
   \<lparr> cash = 50, base_treas = 50, risky = 0, loan_bucket = 0, loan_bal = 0, hwm = 0,
     max_dd_risky = 0, hwm_total = 100, max_dd_total = 0, rm_limit = 0, rm_bal = 0,
     rm_ever_used = False, failed = False, fail_idx = 1 \<rparr>
  = (\<lparr> cash = 50, base_treas = 50, risky = 0, loan_bucket = 0, loan_bal = 0, hwm = 0,
     max_dd_risky = 0, hwm_total = 100, max_dd_total = 0, rm_limit = 0, rm_bal = 0,
     rm_ever_used = False, failed = False, fail_idx = 1 \<rparr>, 0)"
  unfolding lane_pre_def Let_def
  by (simp add: pre_defs Let_def)

lemma plain_post1: "lane_post kw_plain [100] (50, 50) b 0 0
   \<lparr> cash = 50, base_treas = 50, risky = 0, loan_bucket = 0, loan_bal = 0, hwm = 0,
     max_dd_risky = 0, hwm_total = 100, max_dd_total = 0, rm_limit = 0, rm_bal = 0,
     rm_ever_used = False, failed = False, fail_idx = 1 \<rparr>
  = \<lparr> cash = 0, base_treas = 0, risky = 0, loan_bucket = 0, loan_bal = 0, hwm = 0,
     max_dd_risky = 0, hwm_total = 100, max_dd_total = 0, rm_limit = 0, rm_bal = 0,
     rm_ever_used = False, failed = False, fail_idx = 1 \<rparr>"
  unfolding lane_post_def fund_spending_def Let_def split_beta
  by (simp add: post_defs Let_def split_beta)

lemma plain_run1: "lanes_after kw_plain returns_crash 100 (Suc 0) =
  Inr [\<lparr> cash = 0, base_treas = 0, risky = 0, loan_bucket = 0, loan_bal = 0, hwm = 0,
     max_dd_risky = 0, hwm_total = 100, max_dd_total = 0, rm_limit = 0, rm_bal = 0,
     rm_ever_used = False, failed = False, fail_idx = 1 \<rparr>]"
proof -
  have a: "lanes_after kw_plain returns_crash 100 n
     = years_loop kw_plain [100] 0 returns_crash n [init_lane kw_plain 1 50 50]" for n
    by (rule lanes_after_one[OF _ _ _ _ plain_amort plain_w1 plain_tg1])
       (simp_all add: returns_crash_def)
  have "years_loop kw_plain [100] 0 returns_crash 0 [init_lane kw_plain 1 50 50]
          = Inr [init_lane kw_plain 1 50 50]" by simp
  from years_loop_one[OF this] show ?thesis
    unfolding a
    by (simp add: returns_crash_def plain_init1 year_step_one[OF plain_sched plain_tg1 plain_pre1]
          plain_post1)
qed


section \<open>Success as a function of the failure years\<close>

lemma lanes_after_length:
  assumes "lanes_after kw returns E n = Inr lanes"
  shows "length lanes = nat (n_sims kw) \<and> 0 < n_sims kw \<and> 0 < shape1 returns"
proof -
  from assms have sh: "shape0 returns = nat (n_sims kw) \<or> shape0 returns = 1"
    by (auto simp: lanes_after_def Let_def split: if_splits sum.splits prod.splits)
  from assms obtain pay where
    "amort_payment (real_of_int (loan_amount kw)) (loan_real_rate kw) (loan_term_years kw) = Inr pay"
    and "0 < n_sims kw" "0 < shape1 returns"
    by (rule lanes_after_InrD)
  with lanes_after_total[OF this(3) this(1) this(2) sh, of E n] assms show ?thesis by auto
qed

lemma count_true_mono:
  "list_all2 (\<lambda>x y. x \<longrightarrow> y) bs cs \<Longrightarrow> length (filter (\<lambda>b. b) bs) \<le> length (filter (\<lambda>b. b) cs)"
  by (induction rule: list_all2_induct) auto

lemma mean_bool_mono:
  assumes "list_all2 (\<lambda>x y. x \<longrightarrow> y) bs cs"
  shows "mean_bool bs \<le> mean_bool cs"
proof -
  from assms have "length bs = length cs" by (rule list_all2_lengthD)
  moreover from count_true_mono[OF assms]
  have "real (length (filter (\<lambda>b. b) bs)) \<le> real (length (filter (\<lambda>b. b) cs))" by simp
  ultimately show ?thesis by (simp add: mean_bool_def divide_right_mono)
qed

lemma mean_bool_map_mono:
  assumes "list_all2 R xs ys" and "\<And>x y. R x y \<Longrightarrow> P x \<longrightarrow> Q y"
  shows "mean_bool (map P xs) \<le> mean_bool (map Q ys)"
  by (rule mean_bool_mono) (use assms in \<open>auto simp: list_all2_map1 list_all2_map2
      elim!: list_all2_mono\<close>)

lemma weighted_sum_mono:
  "length ps = length r1 \<Longrightarrow> list_all2 (\<le>) r1 r2 \<Longrightarrow> \<forall>p\<in>set ps. 0 \<le> (p::real) \<Longrightarrow>
   sum_list (map2 (\<lambda>p r. p * (1 - r)) ps r2) \<le> sum_list (map2 (\<lambda>p r. p * (1 - r)) ps (r1 :: real list))"
proof (induction ps arbitrary: r1 r2)
  case Nil
  then show ?case by simp
next
  case (Cons p ps)
  from Cons.prems obtain a r1' b r2' where r: "r1 = a # r1'" "r2 = b # r2'" "a \<le> b"
      "list_all2 (\<le>) r1' r2'" "length ps = length r1'"
    by (cases r1; cases r2) auto
  from Cons.prems have p: "0 \<le> p" "\<forall>p\<in>set ps. 0 \<le> p" by simp_all
  have "p * (1 - b) \<le> p * (1 - a)" using r(3) p(1) by (simp add: mult_left_mono)
  moreover from Cons.IH[OF r(5) r(4) p(2)]
  have "sum_list (map2 (\<lambda>p r. p * (1 - r)) ps r2') \<le> sum_list (map2 (\<lambda>p r. p * (1 - r)) ps r1')" .
  ultimately show ?case by (simp add: r)
qed

lemma ruin_by_age_mono:
  assumes "list_all2 (\<lambda>a b. b \<le> a) f1 f2" and "ages \<noteq> []"
  shows "list_all2 (\<le>) (ruin_by_age f1 ages) (ruin_by_age f2 ages)"
proof -
  have idx: "(case age_to_t ages a of None \<Rightarrow> length ages - 1 | Some t \<Rightarrow> t) < length ages" for a
    using assms(2) by (auto split: option.splits dest: age_to_t_bound)
  have "ruin_by_t f1 (length ages) ! i \<le> ruin_by_t f2 (length ages) ! i" if "i < length ages" for i
    using that unfolding ruin_by_t_def
    by (simp add: mean_bool_map_mono[OF assms(1)])
  with idx show ?thesis
    by (simp add: ruin_by_age_def Let_def list_all2_map1 list_all2_map2 list_all2_same)
qed

lemma death_weighted_success_mono:
  assumes "list_all2 (\<lambda>a b. b \<le> a) f1 f2" and "f1 \<noteq> []" and "ages \<noteq> []"
  shows "\<exists>p1 q1 p2 q2. death_weighted_success f1 ages = Inr (p1, q1)
           \<and> death_weighted_success f2 ages = Inr (p2, q2) \<and> p2 \<le> p1 \<and> q2 \<le> q1"
proof -
  from assms(1,2) have ne2: "f2 \<noteq> []" by (auto dest: list_all2_lengthD)
  have q: "mean_bool (map (\<lambda>f. f \<ge> int (length ages)) f2)
             \<le> mean_bool (map (\<lambda>f. f \<ge> int (length ages)) f1)"
    by (rule mean_bool_map_mono[where R = "\<lambda>b a. b \<le> a"])
       (use assms(1) in \<open>auto simp: list_all2_conv_all_nth\<close>)
  have len: "length (snd mortality_weights) = length (ruin_by_age f1 ages)"
    by (simp add: weights_length ruin_by_age_def Let_def)
  from weighted_sum_mono[OF len ruin_by_age_mono[OF assms(1,3)] weights_nonneg] q assms(2,3) ne2
  show ?thesis by (simp add: death_weighted_success_def Let_def)
qed


lemma final_metrics_p:
  assumes "death_weighted_success (map fail_idx lanes) (ages_of kw n) = Inr (p, q)"
  shows "\<exists>m. final_metrics kw n lanes = Inr m \<and> p_success_death_weighted m = p
           \<and> p_success_to_age_99 m = q"
  using assms by (simp add: final_metrics_def)

text \<open>
  Claim C1, as amended. For two runs of the kernel on the same arguments and returns,
  whenever the failure year of every path of the first run is at least that of the same
  path of the second run, \<open>p_success_death_weighted\<close> and \<open>p_success_to_age_99\<close> of the
  first run are at least those of the second. That a lower \<open>E\<close> gives such failure years
  is not claimed.
\<close>

theorem success_monotone_in_failure_years:
  assumes "lanes_after kw returns E1 (shape1 returns) = Inr l1"
    and "lanes_after kw returns E2 (shape1 returns) = Inr l2"
    and "list_all2 (\<lambda>a b. fail_idx b \<le> fail_idx a) l1 l2"
  shows "\<exists>m1 m2. simulate_once kw returns E1 = Inr m1 \<and> simulate_once kw returns E2 = Inr m2
          \<and> p_success_death_weighted m2 \<le> p_success_death_weighted m1
          \<and> p_success_to_age_99 m2 \<le> p_success_to_age_99 m1"
proof -
  from lanes_after_length[OF assms(1)] have ne: "l1 \<noteq> []" and ny: "0 < shape1 returns" by auto
  have ages: "ages_of kw (shape1 returns) \<noteq> []" using ny by (simp add: ages_of_def)
  have dom: "list_all2 (\<lambda>a b. b \<le> a) (map fail_idx l1) (map fail_idx l2)"
    using assms(3) by (simp add: list_all2_map1 list_all2_map2)
  from ne have ne': "map fail_idx l1 \<noteq> []" by simp
  from death_weighted_success_mono[OF dom ne' ages] obtain p1 q1 p2 q2 where
    d: "death_weighted_success (map fail_idx l1) (ages_of kw (shape1 returns)) = Inr (p1, q1)"
       "death_weighted_success (map fail_idx l2) (ages_of kw (shape1 returns)) = Inr (p2, q2)"
       "p2 \<le> p1" "q2 \<le> q1" by blast
  from final_metrics_p[OF d(1)] final_metrics_p[OF d(2)] d(3,4) assms(1,2)
  show ?thesis by (auto simp: simulate_once_def)
qed

lemma one_year_ruin_by_age:
  assumes "length ages = 1"
  shows "ruin_by_age fidx ages
           = map (\<lambda>a. mean_bool (map (\<lambda>f. f \<le> 0) fidx)) (fst mortality_weights)"
proof -
  have idx: "(case age_to_t ages a of None \<Rightarrow> length ages - 1 | Some t \<Rightarrow> t) = 0" for a
    using assms by (auto split: option.splits dest: age_to_t_bound)
  have r: "ruin_by_t fidx (length ages) ! 0 = mean_bool (map (\<lambda>f. f \<le> 0) fidx)"
    using assms by (simp add: ruin_by_t_def)
  show ?thesis unfolding ruin_by_age_def Let_def by (simp only: idx r)
qed

lemma weighted_sum_const:
  "length ps = length xs \<Longrightarrow>
   sum_list (map2 (\<lambda>p r. p * (1 - r)) ps (map (\<lambda>a. c) xs)) = (1 - c) * sum_list (ps :: real list)"
  by (induction ps xs rule: list_induct2) (simp_all add: algebra_simps)

lemma one_year_success:
  assumes "length ages = 1" and "fidx \<noteq> []"
  shows "death_weighted_success fidx ages
           = Inr (1 - mean_bool (map (\<lambda>f. f \<le> 0) fidx), mean_bool (map (\<lambda>f. f \<ge> 1) fidx))"
proof -
  have "length (snd mortality_weights) = length (fst mortality_weights)"
    by (simp add: weights_length)
  from weighted_sum_const[OF this] assms show ?thesis
    by (simp add: death_weighted_success_def Let_def one_year_ruin_by_age weights_sum)
qed

lemma crash_shape: "shape1 returns_crash = Suc 0"
  by (simp add: returns_crash_def)

theorem success_monotone_in_failure_years_witness:
  "(\<exists>l1 l2. lanes_after kw_plain returns_crash 100 (shape1 returns_crash) = Inr l1
        \<and> lanes_after kw_plain returns_crash 0 (shape1 returns_crash) = Inr l2
        \<and> list_all2 (\<lambda>a b. fail_idx b \<le> fail_idx a) l1 l2)
   \<and> (\<exists>m1 m2. simulate_once kw_plain returns_crash 100 = Inr m1
        \<and> simulate_once kw_plain returns_crash 0 = Inr m2
        \<and> p_success_death_weighted m2 \<le> p_success_death_weighted m1
        \<and> p_success_to_age_99 m2 \<le> p_success_to_age_99 m1)"
proof -
  note r1 = plain_run1[folded crash_shape] and r0 = plain_run0[folded crash_shape]
  have "list_all2 (\<lambda>a b. fail_idx b \<le> fail_idx a)
     [\<lparr> cash = 0, base_treas = 0, risky = 0, loan_bucket = 0, loan_bal = 0, hwm = 0,
        max_dd_risky = 0, hwm_total = 100, max_dd_total = 0, rm_limit = 0, rm_bal = 0,
        rm_ever_used = False, failed = False, fail_idx = 1 \<rparr>]
     [\<lparr> cash = 0, base_treas = 0, risky = 25, loan_bucket = 0, loan_bal = 0, hwm = 100,
        max_dd_risky = 3/4, hwm_total = 100, max_dd_total = 3/4, rm_limit = 0, rm_bal = 0,
        rm_ever_used = False, failed = True, fail_idx = 0 \<rparr>]" by simp
  from success_monotone_in_failure_years[OF r1 r0 this] r1 r0 this show ?thesis by blast
qed

text \<open>
  Claim C1 as stated fails: with \<open>E1 = 0 \<le> E2 = 100\<close> the path fails in year 0 at \<open>E1\<close>
  and never at \<open>E2\<close>, and both success probabilities rise from 0 to 1.
\<close>

theorem spending_monotonicity_counterexample:
  "(0 :: int) \<le> 100
   \<and> (\<exists>s1 s2. lanes_after kw_plain returns_crash 0 1 = Inr [s1]
        \<and> lanes_after kw_plain returns_crash 100 1 = Inr [s2]
        \<and> fail_idx s1 = 0 \<and> fail_idx s2 = 1)
   \<and> (\<exists>m1 m2. simulate_once kw_plain returns_crash 0 = Inr m1
        \<and> simulate_once kw_plain returns_crash 100 = Inr m2
        \<and> p_success_death_weighted m1 = 0 \<and> p_success_death_weighted m2 = 1
        \<and> p_success_to_age_99 m1 = 0 \<and> p_success_to_age_99 m2 = 1)"
proof -
  have ages: "length (ages_of kw_plain (Suc 0)) = 1" by (simp add: ages_of_def)
  have d0: "death_weighted_success (map fail_idx
       [\<lparr> cash = 0, base_treas = 0, risky = 25, loan_bucket = 0, loan_bal = 0, hwm = 100,
        max_dd_risky = 3/4, hwm_total = 100, max_dd_total = 3/4, rm_limit = 0, rm_bal = 0,
        rm_ever_used = False, failed = True, fail_idx = 0 \<rparr>]) (ages_of kw_plain (Suc 0))
       = Inr (0, 0)"
    by (subst one_year_success[OF ages]) (simp_all add: mean_bool_def)
  have d1: "death_weighted_success (map fail_idx
       [\<lparr> cash = 0, base_treas = 0, risky = 0, loan_bucket = 0, loan_bal = 0, hwm = 0,
        max_dd_risky = 0, hwm_total = 100, max_dd_total = 0, rm_limit = 0, rm_bal = 0,
        rm_ever_used = False, failed = False, fail_idx = 1 \<rparr>]) (ages_of kw_plain (Suc 0))
       = Inr (1, 1)"
    by (subst one_year_success[OF ages]) (simp_all add: mean_bool_def)
  from final_metrics_p[OF d0] obtain m1 where m1: "final_metrics kw_plain (Suc 0)
       [\<lparr> cash = 0, base_treas = 0, risky = 25, loan_bucket = 0, loan_bal = 0, hwm = 100,
        max_dd_risky = 3/4, hwm_total = 100, max_dd_total = 3/4, rm_limit = 0, rm_bal = 0,
        rm_ever_used = False, failed = True, fail_idx = 0 \<rparr>] = Inr m1"
    "p_success_death_weighted m1 = 0" "p_success_to_age_99 m1 = 0" by blast
  from final_metrics_p[OF d1] obtain m2 where m2: "final_metrics kw_plain (Suc 0)
       [\<lparr> cash = 0, base_treas = 0, risky = 0, loan_bucket = 0, loan_bal = 0, hwm = 0,
        max_dd_risky = 0, hwm_total = 100, max_dd_total = 0, rm_limit = 0, rm_bal = 0,
        rm_ever_used = False, failed = False, fail_idx = 1 \<rparr>] = Inr m2"
    "p_success_death_weighted m2 = 1" "p_success_to_age_99 m2 = 1" by blast
  have "simulate_once kw_plain returns_crash 0 = Inr m1"
    "simulate_once kw_plain returns_crash 100 = Inr m2"
    by (simp_all add: simulate_once_def crash_shape plain_run0 plain_run1 m1 m2)
  with m1 m2 plain_run0 plain_run1 show ?thesis by simp
qed


end
